theory Spec2Isabelle
  imports Main "HOL-Library.Sublist" "HOL-Library.Word"
begin

unbundle bit_operations_syntax

section \<open>Python string operations used by the scripts\<close>

text \<open>
  The project file is read in text mode into one Python \<open>str\<close>, held here as a
  \<open>string\<close> (a list of characters). The library operations the two scripts call on it
  are \<open>in\<close>, \<open>str.replace\<close>, \<open>str.find\<close>, \<open>str.upper\<close>, slicing and \<open>re.search\<close>.
\<close>

text \<open>\<open>pat in s\<close>: \<open>pat\<close> occurs somewhere in \<open>s\<close> as a contiguous substring.\<close>

fun contains :: "string \<Rightarrow> string \<Rightarrow> bool" where
  "contains [] pat = (pat = [])"
| "contains (c # cs) pat = (prefix pat (c # cs) \<or> contains cs pat)"

text \<open>
  \<open>s.replace(old, new)\<close> with a non-empty \<open>old\<close>: the occurrences of \<open>old\<close> are found from
  left to right, without overlap, and every one of them is replaced.
\<close>

fun replace_ne :: "string \<Rightarrow> string \<Rightarrow> string \<Rightarrow> string" where
  "replace_ne old new [] = []"
| "replace_ne old new (c # cs) =
     (if prefix old (c # cs) then new @ replace_ne old new (drop (length old - 1) cs)
      else c # replace_ne old new cs)"

text \<open>With an empty \<open>old\<close>, Python puts \<open>new\<close> before every character and at the end.\<close>

definition replace :: "string \<Rightarrow> string \<Rightarrow> string \<Rightarrow> string" where
  "replace s old new =
     (if old = [] then new @ concat (map (\<lambda>c. c # new) s) else replace_ne old new s)"

text \<open>\<open>s.find(sub)\<close>: the lowest index at which \<open>sub\<close> occurs, or \<open>-1\<close>.\<close>

fun find_str :: "string \<Rightarrow> string \<Rightarrow> int" where
  "find_str [] sub = (if sub = [] then 0 else -1)"
| "find_str (c # cs) sub =
     (if prefix sub (c # cs) then 0
      else (let r = find_str cs sub in if r = -1 then -1 else r + 1))"

text \<open>
  \<open>str.upper\<close> on the characters it is applied to here (hexadecimal digits and hyphens):
  an ASCII lower-case letter becomes its upper-case letter, anything else stays.
\<close>

definition upper_char :: "char \<Rightarrow> char" where
  "upper_char c =
     (let n = (of_char c :: nat) in if 97 \<le> n \<and> n \<le> 122 then char_of (n - 32) else c)"

definition upper :: "string \<Rightarrow> string" where
  "upper s = map upper_char s"

section \<open>The fragment of Python regular expressions used by the scripts\<close>

text \<open>
  Every pattern of the scripts is a concatenation of literals, of \<open>.*?\<close> (under
  \<open>re.DOTALL\<close>, so the dot matches every character), of \<open>\s*\<close>, of \<open>[A-F0-9]{24}\<close> and of
  capturing groups around such pieces.
\<close>

datatype cclass = AnyChar | Space | UpperHex

text \<open>
  \<open>\s\<close> on a \<open>str\<close> pattern is Unicode white space: in the 8-bit range these are the
  characters 9 to 13, 28 to 32, 133 and 160.
\<close>

fun in_class :: "cclass \<Rightarrow> char \<Rightarrow> bool" where
  "in_class AnyChar c = True"
| "in_class Space c =
     (let n = (of_char c :: nat) in (9 \<le> n \<and> n \<le> 13) \<or> (28 \<le> n \<and> n \<le> 32) \<or> n = 133 \<or> n = 160)"
| "in_class UpperHex c =
     (let n = (of_char c :: nat) in (65 \<le> n \<and> n \<le> 70) \<or> (48 \<le> n \<and> n \<le> 57))"

datatype regex =
    Lit string
  | Star cclass
  | LazyStar cclass
  | Times cclass nat
  | Cat regex regex
  | Group regex

text \<open>
  \<open>rmatch r s\<close> lists the ways in which \<open>r\<close> matches a prefix of \<open>s\<close>, in the order in
  which the backtracking matcher tries them: each is the list of captured groups (in the
  order of their opening parentheses), the text matched, and the rest of \<open>s\<close>. A greedy
  star tries the longest run first, a lazy one the shortest.
\<close>

fun rmatch :: "regex \<Rightarrow> string \<Rightarrow> (string list \<times> string \<times> string) list" where
  "rmatch (Lit l) s = (if prefix l s then [([], l, drop (length l) s)] else [])"
| "rmatch (Star c) s =
     map (\<lambda>k. ([], take k s, drop k s)) (rev [0..<Suc (length (takeWhile (in_class c) s))])"
| "rmatch (LazyStar c) s =
     map (\<lambda>k. ([], take k s, drop k s)) [0..<Suc (length (takeWhile (in_class c) s))]"
| "rmatch (Times c n) s =
     (if n \<le> length (takeWhile (in_class c) s) then [([], take n s, drop n s)] else [])"
| "rmatch (Cat r1 r2) s =
     concat (map (\<lambda>(g1, m1, rest1).
                map (\<lambda>(g2, m2, rest2). (g1 @ g2, m1 @ m2, rest2)) (rmatch r2 rest1))
             (rmatch r1 s))"
| "rmatch (Group r) s = map (\<lambda>(g, m, rest). (m # g, m, rest)) (rmatch r s)"

text \<open>
  \<open>re.search(r, s)\<close>: the first match at the leftmost position where there is one, or
  \<open>None\<close>. A match object is the list of its groups, group 0 (the whole match) first.
\<close>

fun re_search :: "regex \<Rightarrow> string \<Rightarrow> string list option" where
  "re_search r [] = (case rmatch r [] of [] \<Rightarrow> None | (g, m, rest) # _ \<Rightarrow> Some (m # g))"
| "re_search r (c # cs) =
     (case rmatch r (c # cs) of [] \<Rightarrow> re_search r cs | (g, m, rest) # _ \<Rightarrow> Some (m # g))"

text \<open>\<open>m.group(i)\<close>; the number of groups of a pattern is \<open>ngroups\<close>.\<close>

definition group :: "string list \<Rightarrow> nat \<Rightarrow> string" where
  "group m i = m ! i"

fun ngroups :: "regex \<Rightarrow> nat" where
  "ngroups (Cat r1 r2) = ngroups r1 + ngroups r2"
| "ngroups (Group r) = Suc (ngroups r)"
| "ngroups r = 0"

section \<open>Key generation\<close>

text \<open>
  \<open>uuid.uuid4()\<close> draws a random 128-bit identifier. The value of each call is an input
  of the model: \<open>uuid4 k\<close> is the identifier returned by the \<open>k\<close>-th call of a run. Its
  attribute \<open>hex\<close> is the identifier written with 32 lower-case hexadecimal digits, and
  \<open>str\<close> of it groups these digits as 8-4-4-4-12 with hyphens.
\<close>

definition hex_digit :: "nat \<Rightarrow> char" where
  "hex_digit n = ''0123456789abcdef'' ! n"

definition nibble :: "128 word \<Rightarrow> nat \<Rightarrow> nat" where
  "nibble u i = unat (drop_bit (4 * (31 - i)) u AND 15)"

definition hex :: "128 word \<Rightarrow> string" where
  "hex u = map (\<lambda>i. hex_digit (nibble u i)) [0..<32]"

definition str_uuid :: "128 word \<Rightarrow> string" where
  "str_uuid u =
     take 8 (hex u) @ ''-'' @ take 4 (drop 8 (hex u)) @ ''-'' @ take 4 (drop 12 (hex u)) @ ''-'' @
     take 4 (drop 16 (hex u)) @ ''-'' @ drop 20 (hex u)"

text \<open>
  A version 4 identifier has the digit 4 at position 12 and one of 8, 9, a, b at
  position 16.
\<close>

definition is_uuid4 :: "128 word \<Rightarrow> bool" where
  "is_uuid4 u = (nibble u 12 = 4 \<and> nibble u 16 div 4 = 2)"

text \<open>\<open>generate_uuid\<close> of add_test_target_complete.py: \<open>uuid.uuid4().hex[:24].upper()\<close>.\<close>

definition generate_uuid :: "128 word \<Rightarrow> string" where
  "generate_uuid u = upper (take 24 (hex u))"

text \<open>
  \<open>generate_uuid\<close> of add_test_target.py:
  \<open>str(uuid.uuid4()).upper().replace('-', '')[:24]\<close>.
\<close>

definition generate_uuid_1 :: "128 word \<Rightarrow> string" where
  "generate_uuid_1 u = take 24 (replace (upper (str_uuid u)) ''-'' [])"

section \<open>Files, text and runs\<close>

text \<open>
  A file on disk holds bytes, here a \<open>string\<close> read as a list of bytes. Both scripts open
  the project file in text mode, \<open>open(path, 'r')\<close> and \<open>open(path, 'w')\<close>, without an
  \<open>encoding\<close> or a \<open>newline\<close> argument, so between the bytes and the \<open>str\<close> that the
  script works on there are the codec of the locale and the translation of line ends.
  The codec, the line separator of the platform and the errors with which the operating
  system refuses to open a path (\<open>read_error\<close> for an existing file opened for reading,
  \<open>write_error\<close> for a path opened for writing; \<open>None\<close> when the path can be opened)
  belong to the system on which the script runs; they are inputs of the model. A path that
  is not in the file system cannot be read, which is \<open>FileNotFoundError\<close>. Once a file is
  open, reading and writing its bytes is taken to succeed. The decoded text is held as a
  \<open>string\<close> as well, one character per code point, so only code points below 256 can be
  represented.
\<close>

datatype exn =
  FileNotFoundError | PermissionError | IsADirectoryError | OSError
  | UnicodeDecodeError | UnicodeEncodeError

record os_env =
  decode :: "string \<Rightarrow> string option"
  encode :: "string \<Rightarrow> string option"
  linesep :: string
  read_error :: "string \<Rightarrow> exn option"
  write_error :: "string \<Rightarrow> exn option"

text \<open>
  Reading with \<open>newline=None\<close>: the line ends \<open>\r\n\<close> and \<open>\r\<close> are both turned into
  \<open>\n\<close> before the text reaches the script.
\<close>

fun universal_newlines :: "string \<Rightarrow> string" where
  "universal_newlines [] = []"
| "universal_newlines [c] = [if c = CHR 0x0D then CHR ''\<newline>'' else c]"
| "universal_newlines (c # d # cs) =
     (if c = CHR 0x0D \<and> d = CHR ''\<newline>'' then CHR ''\<newline>'' # universal_newlines cs
      else if c = CHR 0x0D then CHR ''\<newline>'' # universal_newlines (d # cs)
      else c # universal_newlines (d # cs))"

text \<open>Writing with \<open>newline=None\<close>: every \<open>\n\<close> is written as \<open>os.linesep\<close>.\<close>

definition write_newlines :: "string \<Rightarrow> string \<Rightarrow> string" where
  "write_newlines sep s = concat (map (\<lambda>c. if c = CHR ''\<newline>'' then sep else [c]) s)"

text \<open>
  \<open>with open(path, 'r') as f: content = f.read()\<close>: the file must exist, the system must
  open it, and its bytes must decode; the result is the decoded text with translated line
  ends.
\<close>

definition read_text :: "os_env \<Rightarrow> (string \<rightharpoonup> string) \<Rightarrow> string \<Rightarrow> exn + string" where
  "read_text env fs path =
     (case fs path of
        None \<Rightarrow> Inl FileNotFoundError
      | Some bytes \<Rightarrow>
          (case read_error env path of
             Some e \<Rightarrow> Inl e
           | None \<Rightarrow>
               (case decode env bytes of
                  None \<Rightarrow> Inl UnicodeDecodeError
                | Some text \<Rightarrow> Inr (universal_newlines text))))"

text \<open>
  \<open>with open(path, 'w') as f: f.write(content)\<close>: opening truncates the file, so when the
  text cannot be encoded the file is left empty. The result is the new file system, the
  paths that were opened for writing and the exception raised, if any.
\<close>

definition write_text ::
  "os_env \<Rightarrow> (string \<rightharpoonup> string) \<Rightarrow> string \<Rightarrow> string
    \<Rightarrow> (string \<rightharpoonup> string) \<times> string list \<times> exn option" where
  "write_text env fs path text =
     (case write_error env path of
        Some e \<Rightarrow> (fs, [], Some e)
      | None \<Rightarrow>
          (case encode env (write_newlines (linesep env) text) of
             None \<Rightarrow> (fs(path \<mapsto> []), [path], Some UnicodeEncodeError)
           | Some bytes \<Rightarrow> (fs(path \<mapsto> bytes), [path], None)))"

text \<open>
  \<open>shutil.copy(src, dst)\<close> for a file \<open>src\<close> that was read just before: the bytes of \<open>src\<close>
  are written to \<open>dst\<close>.
\<close>

definition copy_file ::
  "os_env \<Rightarrow> (string \<rightharpoonup> string) \<Rightarrow> string \<Rightarrow> string
    \<Rightarrow> (string \<rightharpoonup> string) \<times> string list \<times> exn option" where
  "copy_file env fs src dst =
     (case write_error env dst of
        Some e \<Rightarrow> (fs, [], Some e)
      | None \<Rightarrow> (fs(dst := fs src), [dst], None))"

text \<open>
  A run starts from the system, the identifiers that \<open>uuid4\<close> will return and a file system
  (a map from paths to bytes). It ends with a file system, the lines printed to the
  standard output, the paths that were opened for writing (in order), and a status: the
  exit code, or the exception that was not caught (the interpreter then prints a traceback
  to the standard error and exits with code 1).
\<close>

datatype status = Exited int | Uncaught exn

fun exit_code :: "status \<Rightarrow> int" where
  "exit_code (Exited n) = n"
| "exit_code (Uncaught e) = 1"

record run =
  files :: "string \<rightharpoonup> string"
  stdout :: "string list"
  written :: "string list"
  status :: status

section \<open>add_test_target.py\<close>

definition project_dir :: string where
  "project_dir = ''/Users/dev/Downloads/test/DevCam''"

definition project_path :: string where
  "project_path = project_dir @ ''/DevCam.xcodeproj''"

definition pbxproj_path :: string where
  "pbxproj_path = project_path @ ''/project.pbxproj''"

text \<open>The pattern \<open>([A-F0-9]{24}) /\* DevCam \*/\<close>.\<close>

definition main_target_re :: regex where
  "main_target_re = Cat (Group (Times UpperHex 24)) (Lit '' /* DevCam */'')"

definition add_test_target ::
  "os_env \<Rightarrow> (nat \<Rightarrow> 128 word) \<Rightarrow> (string \<rightharpoonup> string) \<Rightarrow> run" where
  "add_test_target env uuid4 fs =
     (case read_text env fs pbxproj_path of
        Inl e \<Rightarrow> \<lparr>files = fs, stdout = [], written = [], status = Uncaught e\<rparr>
      | Inr content \<Rightarrow>
          if contains content ''DevCamTests'' then
            \<lparr>files = fs, stdout = [''Test target already exists''], written = [],
             status = Exited 0\<rparr>
          else
            let out1 = [''Adding test target to Xcode project...''];
                backup = pbxproj_path @ ''.backup''
            in (case copy_file env fs pbxproj_path backup of
                 (fs1, opened, Some e) \<Rightarrow>
                   \<lparr>files = fs1, stdout = out1, written = opened, status = Uncaught e\<rparr>
               | (fs1, opened, None) \<Rightarrow>
                  (case re_search main_target_re content of
                     None \<Rightarrow>
                       \<lparr>files = fs1, stdout = out1 @ [''Could not find main target''],
                        written = opened, status = Exited 1\<rparr>
                   | Some target_match \<Rightarrow>
                       let main_target_uuid = group target_match 1;
                           test_target_uuid = generate_uuid_1 (uuid4 0);
                           test_product_uuid = generate_uuid_1 (uuid4 1);
                           test_source_buildphase_uuid = generate_uuid_1 (uuid4 2);
                           test_frameworks_buildphase_uuid = generate_uuid_1 (uuid4 3);
                           test_resources_buildphase_uuid = generate_uuid_1 (uuid4 4);
                           test_fileref_uuid = generate_uuid_1 (uuid4 5);
                           test_buildfile_uuid = generate_uuid_1 (uuid4 6);
                           insert_pos = find_str content (main_target_uuid @ '' /* DevCam */,'')
                       in if insert_pos = -1 then
                            \<lparr>files = fs1, stdout = out1 @ [''Could not find insertion point''],
                             written = opened, status = Exited 1\<rparr>
                          else
                            \<lparr>files = fs1,
                             stdout = out1 @ [''Manual configuration required. Please use Xcode GUI to add test target.''],
                             written = opened, status = Exited 0\<rparr>)))"

section \<open>add_test_target_complete.py\<close>

definition project_path_complete :: string where
  "project_path_complete =
     ''/Users/dev/Downloads/test/DevCam/DevCam.xcodeproj/project.pbxproj''"

text \<open>The eleven keys of a run, generated in this order.\<close>

record keys =
  test_target_uuid :: string
  test_product_uuid :: string
  test_sources_uuid :: string
  test_frameworks_uuid :: string
  test_resources_uuid :: string
  test_buildconfig_list_uuid :: string
  test_debug_config_uuid :: string
  test_release_config_uuid :: string
  test_dependency_uuid :: string
  test_target_dependency_uuid :: string
  test_group_uuid :: string

definition generate_keys :: "(nat \<Rightarrow> 128 word) \<Rightarrow> keys" where
  "generate_keys uuid4 =
     \<lparr>test_target_uuid = generate_uuid (uuid4 0),
      test_product_uuid = generate_uuid (uuid4 1),
      test_sources_uuid = generate_uuid (uuid4 2),
      test_frameworks_uuid = generate_uuid (uuid4 3),
      test_resources_uuid = generate_uuid (uuid4 4),
      test_buildconfig_list_uuid = generate_uuid (uuid4 5),
      test_debug_config_uuid = generate_uuid (uuid4 6),
      test_release_config_uuid = generate_uuid (uuid4 7),
      test_dependency_uuid = generate_uuid (uuid4 8),
      test_target_dependency_uuid = generate_uuid (uuid4 9),
      test_group_uuid = generate_uuid (uuid4 10)\<rparr>"

definition key_list :: "keys \<Rightarrow> string list" where
  "key_list k =
     [test_target_uuid k, test_product_uuid k, test_sources_uuid k, test_frameworks_uuid k,
      test_resources_uuid k, test_buildconfig_list_uuid k, test_debug_config_uuid k,
      test_release_config_uuid k, test_dependency_uuid k, test_target_dependency_uuid k,
      test_group_uuid k]"

subsection \<open>The texts that the script inserts\<close>

definition tabs :: "nat \<Rightarrow> string" where
  "tabs n = replicate n (CHR 0x09)"

definition new_file_ref :: "keys \<Rightarrow> string" where
  \<open>new_file_ref k =
     tabs 2 @ test_product_uuid k @ '' /* DevCamTests.xctest */ = {isa = PBXFileReference; explicitFileType = wrapper.cfbundle; includeInIndex = 0; path = DevCamTests.xctest; sourceTree = BUILT_PRODUCTS_DIR; };\<newline>''\<close>

definition new_group :: "keys \<Rightarrow> string" where
  \<open>new_group k =
     tabs 2 @ test_group_uuid k @ '' /* DevCamTests */ = {\<newline>'' @
     tabs 3 @ ''isa = PBXFileSystemSynchronizedRootGroup;\<newline>'' @
     tabs 3 @ ''path = DevCamTests;\<newline>'' @
     tabs 3 @ ''sourceTree = "<group>";\<newline>'' @
     tabs 2 @ ''};\<newline>''\<close>

definition new_frameworks :: "keys \<Rightarrow> string" where
  \<open>new_frameworks k =
     tabs 2 @ test_frameworks_uuid k @ '' /* Frameworks */ = {\<newline>'' @
     tabs 3 @ ''isa = PBXFrameworksBuildPhase;\<newline>'' @
     tabs 3 @ ''buildActionMask = 2147483647;\<newline>'' @
     tabs 3 @ ''files = (\<newline>'' @
     tabs 3 @ '');\<newline>'' @
     tabs 3 @ ''runOnlyForDeploymentPostprocessing = 0;\<newline>'' @
     tabs 2 @ ''};\<newline>''\<close>

definition new_target :: "keys \<Rightarrow> string" where
  \<open>new_target k =
     tabs 2 @ test_target_uuid k @ '' /* DevCamTests */ = {\<newline>'' @
     tabs 3 @ ''isa = PBXNativeTarget;\<newline>'' @
     tabs 3 @ ''buildConfigurationList = '' @ test_buildconfig_list_uuid k @ '' /* Build configuration list for PBXNativeTarget "DevCamTests" */;\<newline>'' @
     tabs 3 @ ''buildPhases = (\<newline>'' @
     tabs 4 @ test_sources_uuid k @ '' /* Sources */,\<newline>'' @
     tabs 4 @ test_frameworks_uuid k @ '' /* Frameworks */,\<newline>'' @
     tabs 4 @ test_resources_uuid k @ '' /* Resources */,\<newline>'' @
     tabs 3 @ '');\<newline>'' @
     tabs 3 @ ''buildRules = (\<newline>'' @
     tabs 3 @ '');\<newline>'' @
     tabs 3 @ ''dependencies = (\<newline>'' @
     tabs 4 @ test_dependency_uuid k @ '' /* PBXTargetDependency */,\<newline>'' @
     tabs 3 @ '');\<newline>'' @
     tabs 3 @ ''fileSystemSynchronizedGroups = (\<newline>'' @
     tabs 4 @ test_group_uuid k @ '' /* DevCamTests */,\<newline>'' @
     tabs 3 @ '');\<newline>'' @
     tabs 3 @ ''name = DevCamTests;\<newline>'' @
     tabs 3 @ ''packageProductDependencies = (\<newline>'' @
     tabs 3 @ '');\<newline>'' @
     tabs 3 @ ''productName = DevCamTests;\<newline>'' @
     tabs 3 @ ''productReference = '' @ test_product_uuid k @ '' /* DevCamTests.xctest */;\<newline>'' @
     tabs 3 @ ''productType = "com.apple.product-type.bundle.unit-test";\<newline>'' @
     tabs 2 @ ''};\<newline>''\<close>

definition container_proxy :: "keys \<Rightarrow> string" where
  \<open>container_proxy k =
     ''/* Begin PBXContainerItemProxy section */\<newline>'' @
     tabs 2 @ test_target_dependency_uuid k @ '' /* PBXContainerItemProxy */ = {\<newline>'' @
     tabs 3 @ ''isa = PBXContainerItemProxy;\<newline>'' @
     tabs 3 @ ''containerPortal = D76E4B162F2331380090999D /* Project object */;\<newline>'' @
     tabs 3 @ ''proxyType = 1;\<newline>'' @
     tabs 3 @ ''remoteGlobalIDString = D76E4B1D2F2331380090999D;\<newline>'' @
     tabs 3 @ ''remoteInfo = DevCam;\<newline>'' @
     tabs 2 @ ''};\<newline>'' @
     ''/* End PBXContainerItemProxy section */\<newline>'' @
     ''\<newline>''\<close>

definition target_dependency :: "keys \<Rightarrow> string" where
  \<open>target_dependency k =
     ''/* Begin PBXTargetDependency section */\<newline>'' @
     tabs 2 @ test_dependency_uuid k @ '' /* PBXTargetDependency */ = {\<newline>'' @
     tabs 3 @ ''isa = PBXTargetDependency;\<newline>'' @
     tabs 3 @ ''target = D76E4B1D2F2331380090999D /* DevCam */;\<newline>'' @
     tabs 3 @ ''targetProxy = '' @ test_target_dependency_uuid k @ '' /* PBXContainerItemProxy */;\<newline>'' @
     tabs 2 @ ''};\<newline>'' @
     ''/* End PBXTargetDependency section */\<newline>'' @
     ''\<newline>''\<close>

definition new_resources :: "keys \<Rightarrow> string" where
  \<open>new_resources k =
     tabs 2 @ test_resources_uuid k @ '' /* Resources */ = {\<newline>'' @
     tabs 3 @ ''isa = PBXResourcesBuildPhase;\<newline>'' @
     tabs 3 @ ''buildActionMask = 2147483647;\<newline>'' @
     tabs 3 @ ''files = (\<newline>'' @
     tabs 3 @ '');\<newline>'' @
     tabs 3 @ ''runOnlyForDeploymentPostprocessing = 0;\<newline>'' @
     tabs 2 @ ''};\<newline>''\<close>

definition new_sources :: "keys \<Rightarrow> string" where
  \<open>new_sources k =
     tabs 2 @ test_sources_uuid k @ '' /* Sources */ = {\<newline>'' @
     tabs 3 @ ''isa = PBXSourcesBuildPhase;\<newline>'' @
     tabs 3 @ ''buildActionMask = 2147483647;\<newline>'' @
     tabs 3 @ ''files = (\<newline>'' @
     tabs 3 @ '');\<newline>'' @
     tabs 3 @ ''runOnlyForDeploymentPostprocessing = 0;\<newline>'' @
     tabs 2 @ ''};\<newline>''\<close>

definition new_debug_config :: "keys \<Rightarrow> string" where
  \<open>new_debug_config k =
     tabs 2 @ test_debug_config_uuid k @ '' /* Debug */ = {\<newline>'' @
     tabs 3 @ ''isa = XCBuildConfiguration;\<newline>'' @
     tabs 3 @ ''buildSettings = {\<newline>'' @
     tabs 4 @ ''BUNDLE_LOADER = "$(TEST_HOST)";\<newline>'' @
     tabs 4 @ ''CODE_SIGN_STYLE = Automatic;\<newline>'' @
     tabs 4 @ ''CURRENT_PROJECT_VERSION = 1;\<newline>'' @
     tabs 4 @ ''DEVELOPMENT_TEAM = 93QQU293YD;\<newline>'' @
     tabs 4 @ ''GENERATE_INFOPLIST_FILE = YES;\<newline>'' @
     tabs 4 @ ''MARKETING_VERSION = 1.0;\<newline>'' @
     tabs 4 @ ''PRODUCT_BUNDLE_IDENTIFIER = "Jonathan-Hines-Dumitru.DevCamTests";\<newline>'' @
     tabs 4 @ ''PRODUCT_NAME = "$(TARGET_NAME)";\<newline>'' @
     tabs 4 @ ''SWIFT_EMIT_LOC_STRINGS = NO;\<newline>'' @
     tabs 4 @ ''SWIFT_VERSION = 5.0;\<newline>'' @
     tabs 4 @ ''TEST_HOST = "$(BUILT_PRODUCTS_DIR)/DevCam.app/$(BUNDLE_EXECUTABLE_FOLDER_PATH)/DevCam";\<newline>'' @
     tabs 3 @ ''};\<newline>'' @
     tabs 3 @ ''name = Debug;\<newline>'' @
     tabs 2 @ ''};\<newline>'' @
     tabs 2 @ test_release_config_uuid k @ '' /* Release */ = {\<newline>'' @
     tabs 3 @ ''isa = XCBuildConfiguration;\<newline>'' @
     tabs 3 @ ''buildSettings = {\<newline>'' @
     tabs 4 @ ''BUNDLE_LOADER = "$(TEST_HOST)";\<newline>'' @
     tabs 4 @ ''CODE_SIGN_STYLE = Automatic;\<newline>'' @
     tabs 4 @ ''CURRENT_PROJECT_VERSION = 1;\<newline>'' @
     tabs 4 @ ''DEVELOPMENT_TEAM = 93QQU293YD;\<newline>'' @
     tabs 4 @ ''GENERATE_INFOPLIST_FILE = YES;\<newline>'' @
     tabs 4 @ ''MARKETING_VERSION = 1.0;\<newline>'' @
     tabs 4 @ ''PRODUCT_BUNDLE_IDENTIFIER = "Jonathan-Hines-Dumitru.DevCamTests";\<newline>'' @
     tabs 4 @ ''PRODUCT_NAME = "$(TARGET_NAME)";\<newline>'' @
     tabs 4 @ ''SWIFT_EMIT_LOC_STRINGS = NO;\<newline>'' @
     tabs 4 @ ''SWIFT_VERSION = 5.0;\<newline>'' @
     tabs 4 @ ''TEST_HOST = "$(BUILT_PRODUCTS_DIR)/DevCam.app/$(BUNDLE_EXECUTABLE_FOLDER_PATH)/DevCam";\<newline>'' @
     tabs 3 @ ''};\<newline>'' @
     tabs 3 @ ''name = Release;\<newline>'' @
     tabs 2 @ ''};\<newline>''\<close>

definition new_config_list :: "keys \<Rightarrow> string" where
  \<open>new_config_list k =
     tabs 2 @ test_buildconfig_list_uuid k @ '' /* Build configuration list for PBXNativeTarget "DevCamTests" */ = {\<newline>'' @
     tabs 3 @ ''isa = XCConfigurationList;\<newline>'' @
     tabs 3 @ ''buildConfigurations = (\<newline>'' @
     tabs 4 @ test_debug_config_uuid k @ '' /* Debug */,\<newline>'' @
     tabs 4 @ test_release_config_uuid k @ '' /* Release */,\<newline>'' @
     tabs 3 @ '');\<newline>'' @
     tabs 3 @ ''defaultConfigurationIsVisible = 0;\<newline>'' @
     tabs 3 @ ''defaultConfigurationName = Release;\<newline>'' @
     tabs 2 @ ''};\<newline>''\<close>

text \<open>The items appended to the lists of steps 4, 5, 9 and 10.\<close>

definition products_child :: "keys \<Rightarrow> string" where
  "products_child k = tabs 4 @ test_product_uuid k @ '' /* DevCamTests.xctest */,\<newline>''"

definition main_group_child :: "keys \<Rightarrow> string" where
  "main_group_child k = tabs 4 @ test_group_uuid k @ '' /* DevCamTests */,\<newline>''"

definition targets_item :: "keys \<Rightarrow> string" where
  "targets_item k = tabs 4 @ test_target_uuid k @ '' /* DevCamTests */,\<newline>''"

definition target_attrs_item :: "keys \<Rightarrow> string" where
  "target_attrs_item k =
     ''\<newline>'' @
     tabs 5 @ test_target_uuid k @ '' = {\<newline>'' @
     tabs 6 @ ''CreatedOnToolsVersion = 26.2;\<newline>'' @
     tabs 6 @ ''TestTargetID = D76E4B1D2F2331380090999D;\<newline>'' @
     tabs 5 @ ''};''"

subsection \<open>The anchors\<close>

fun cats :: "regex list \<Rightarrow> regex" where
  "cats [] = Lit []"
| "cats [r] = r"
| "cats (r # rs) = Cat r (cats rs)"

text \<open>
  \<open>/\* Begin PBXFileReference section \*/\n(.*?)\n/\* End PBXFileReference section \*/\<close>
\<close>

definition file_ref_re :: regex where
  "file_ref_re =
     cats [Lit ''/* Begin PBXFileReference section */\<newline>'', Group (LazyStar AnyChar),
           Lit ''\<newline>/* End PBXFileReference section */'']"

text \<open>
  \<open>(D76E4B1F2F2331380090999D /\* Products \*/ = \{.*?children = \(\s*)(.*?)(\s*\);)\<close>
\<close>

definition products_group_re :: regex where
  "products_group_re =
     cats [Group (cats [Lit ''D76E4B1F2F2331380090999D /* Products */ = {'', LazyStar AnyChar,
                        Lit ''children = ('', Star Space]),
           Group (LazyStar AnyChar),
           Group (cats [Star Space, Lit '');''])]"

text \<open>\<open>(D76E4B152F2331380090999D = \{.*?children = \(\s*)(.*?)(\s*\);)\<close>\<close>

definition main_group_re :: regex where
  "main_group_re =
     cats [Group (cats [Lit ''D76E4B152F2331380090999D = {'', LazyStar AnyChar,
                        Lit ''children = ('', Star Space]),
           Group (LazyStar AnyChar),
           Group (cats [Star Space, Lit '');''])]"

text \<open>\<open>(targets = \(\s*)(.*?)(\s*\);)\<close>\<close>

definition targets_list_re :: regex where
  "targets_list_re =
     cats [Group (cats [Lit ''targets = ('', Star Space]),
           Group (LazyStar AnyChar),
           Group (cats [Star Space, Lit '');''])]"

text \<open>\<open>(TargetAttributes = \{)(.*?)(\s*\};)\<close>\<close>

definition target_attrs_re :: regex where
  "target_attrs_re =
     cats [Group (Lit ''TargetAttributes = {''),
           Group (LazyStar AnyChar),
           Group (cats [Star Space, Lit ''};''])]"

subsection \<open>The steps\<close>

text \<open>
  Steps 1, 2, 3, 6, 11, 12, 13 and 14 put a new entry before the end marker of a section:
  \<open>if re.search(anchor, content): content = content.replace(marker, entry + marker)\<close>.
\<close>

definition insert_before :: "regex \<Rightarrow> string \<Rightarrow> string \<Rightarrow> string \<Rightarrow> string" where
  "insert_before anchor marker entry content =
     (case re_search anchor content of
        None \<Rightarrow> content
      | Some m \<Rightarrow> replace content marker (entry @ marker))"

text \<open>
  Steps 4, 5, 9 and 10 append an item to a list: the anchor captures the head of the
  list, its items and its tail, and the matched text is replaced by the same text with
  the new item after the items:
  \<open>content.replace(m.group(0), m.group(1) + (m.group(2) + item) + m.group(3))\<close>.
\<close>

definition append_to_list :: "regex \<Rightarrow> string \<Rightarrow> string \<Rightarrow> string" where
  "append_to_list anchor item content =
     (case re_search anchor content of
        None \<Rightarrow> content
      | Some m \<Rightarrow>
          (let existing = group m 2; new_items = existing @ item
           in replace content (group m 0) (group m 1 @ new_items @ group m 3)))"

text \<open>
  Steps 7 and 8 create a section when its begin marker is not in the content, in front
  of the begin marker of another section:
  \<open>if begin_marker not in content: content = content.replace(next_marker, block + next_marker)\<close>.
\<close>

definition create_section :: "string \<Rightarrow> string \<Rightarrow> string \<Rightarrow> string \<Rightarrow> string" where
  "create_section begin_marker block next_marker content =
     (if \<not> contains content begin_marker
      then replace content next_marker (block @ next_marker) else content)"

definition step1 :: "keys \<Rightarrow> string \<Rightarrow> string" where
  "step1 k = insert_before file_ref_re ''/* End PBXFileReference section */'' (new_file_ref k)"

definition step2 :: "keys \<Rightarrow> string \<Rightarrow> string" where
  "step2 k = insert_before (Lit ''/* End PBXFileSystemSynchronizedRootGroup section */'')
               ''/* End PBXFileSystemSynchronizedRootGroup section */'' (new_group k)"

definition step3 :: "keys \<Rightarrow> string \<Rightarrow> string" where
  "step3 k = insert_before (Lit ''/* End PBXFrameworksBuildPhase section */'')
               ''/* End PBXFrameworksBuildPhase section */'' (new_frameworks k)"

definition step4 :: "keys \<Rightarrow> string \<Rightarrow> string" where
  "step4 k = append_to_list products_group_re (products_child k)"

definition step5 :: "keys \<Rightarrow> string \<Rightarrow> string" where
  "step5 k = append_to_list main_group_re (main_group_child k)"

definition step6 :: "keys \<Rightarrow> string \<Rightarrow> string" where
  "step6 k = insert_before (Lit ''/* End PBXNativeTarget section */'')
               ''/* End PBXNativeTarget section */'' (new_target k)"

definition step7 :: "keys \<Rightarrow> string \<Rightarrow> string" where
  "step7 k = create_section ''/* Begin PBXContainerItemProxy section */'' (container_proxy k)
               ''/* Begin PBXFileReference section */''"

definition step8 :: "keys \<Rightarrow> string \<Rightarrow> string" where
  "step8 k = create_section ''/* Begin PBXTargetDependency section */'' (target_dependency k)
               ''/* Begin PBXFrameworksBuildPhase section */''"

definition step9 :: "keys \<Rightarrow> string \<Rightarrow> string" where
  "step9 k = append_to_list targets_list_re (targets_item k)"

definition step10 :: "keys \<Rightarrow> string \<Rightarrow> string" where
  "step10 k = append_to_list target_attrs_re (target_attrs_item k)"

definition step11 :: "keys \<Rightarrow> string \<Rightarrow> string" where
  "step11 k = insert_before (Lit ''/* End PBXResourcesBuildPhase section */'')
               ''/* End PBXResourcesBuildPhase section */'' (new_resources k)"

definition step12 :: "keys \<Rightarrow> string \<Rightarrow> string" where
  "step12 k = insert_before (Lit ''/* End PBXSourcesBuildPhase section */'')
               ''/* End PBXSourcesBuildPhase section */'' (new_sources k)"

definition step13 :: "keys \<Rightarrow> string \<Rightarrow> string" where
  "step13 k = insert_before (Lit ''/* End XCBuildConfiguration section */'')
               ''/* End XCBuildConfiguration section */'' (new_debug_config k)"

definition step14 :: "keys \<Rightarrow> string \<Rightarrow> string" where
  "step14 k = insert_before (Lit ''/* End XCConfigurationList section */'')
               ''/* End XCConfigurationList section */'' (new_config_list k)"

text \<open>The fourteen steps in the order of the script, each on the content left by the one before.\<close>

definition steps :: "keys \<Rightarrow> (string \<Rightarrow> string) list" where
  "steps k = [step1 k, step2 k, step3 k, step4 k, step5 k, step6 k, step7 k, step8 k,
              step9 k, step10 k, step11 k, step12 k, step13 k, step14 k]"

definition patch :: "keys \<Rightarrow> string \<Rightarrow> string" where
  "patch k content = fold (\<lambda>step c. step c) (steps k) content"

definition add_test_target_complete ::
  "os_env \<Rightarrow> (nat \<Rightarrow> 128 word) \<Rightarrow> (string \<rightharpoonup> string) \<Rightarrow> run" where
  "add_test_target_complete env uuid4 fs =
     (case read_text env fs project_path_complete of
        Inl e \<Rightarrow> \<lparr>files = fs, stdout = [], written = [], status = Uncaught e\<rparr>
      | Inr content \<Rightarrow>
          if contains content ''DevCamTests'' then
            \<lparr>files = fs, stdout = [''Test target already exists!''], written = [],
             status = Exited 0\<rparr>
          else
            let k = generate_keys uuid4;
                content' = patch k content
            in (case write_text env fs project_path_complete content' of
                 (fs1, opened, Some e) \<Rightarrow>
                   \<lparr>files = fs1, stdout = [], written = opened, status = Uncaught e\<rparr>
               | (fs1, opened, None) \<Rightarrow>
                   \<lparr>files = fs1,
                    stdout = [''Successfully added DevCamTests target to Xcode project!''],
                    written = opened, status = Exited 0\<rparr>))"

section \<open>Notions used to state the properties\<close>

definition search_anchors :: "regex list" where
  "search_anchors =
     [file_ref_re,
      Lit ''/* End PBXFileSystemSynchronizedRootGroup section */'',
      Lit ''/* End PBXFrameworksBuildPhase section */'',
      products_group_re,
      main_group_re,
      Lit ''/* End PBXNativeTarget section */'',
      targets_list_re,
      target_attrs_re,
      Lit ''/* End PBXResourcesBuildPhase section */'',
      Lit ''/* End PBXSourcesBuildPhase section */'',
      Lit ''/* End XCBuildConfiguration section */'',
      Lit ''/* End XCConfigurationList section */'']"

definition replace_anchors :: "string list" where
  "replace_anchors =
     [''/* Begin PBXFileReference section */'', ''/* Begin PBXFrameworksBuildPhase section */'']"

definition no_anchor_matches :: "string \<Rightarrow> bool" where
  "no_anchor_matches content =
     (list_all (\<lambda>r. re_search r content = None) search_anchors
      \<and> list_all (\<lambda>m. \<not> contains content m) replace_anchors)"

definition occurs_once_at :: "string \<Rightarrow> string \<Rightarrow> string \<Rightarrow> string \<Rightarrow> bool" where
  "occurs_once_at pre marker post content =
     (content = pre @ marker @ post \<and> \<not> contains (pre @ butlast marker) marker
      \<and> \<not> contains post marker)"

definition uuid4_distinct :: "nat \<Rightarrow> 128 word" where
  "uuid4_distinct i = 0x0123456789AB4DEF8123A56700000000 + push_bit 32 (word_of_nat i)"

definition doc_header :: string where
  "doc_header = ''// !$*UTF8*$!''"

text \<open>
  Two example systems, both with the line separator \<open>\n\<close> and no path refused: one with the ISO 8859-1 codec, where every byte is a character, and one with
  the strict US-ASCII codec.
\<close>

definition latin1_codec :: "string \<Rightarrow> string option" where
  "latin1_codec s = Some s"

definition ascii_codec :: "string \<Rightarrow> string option" where
  "ascii_codec s = (if list_all (\<lambda>c. of_char c < (128 :: nat)) s then Some s else None)"

definition posix_latin1 :: os_env where
  "posix_latin1 =
     \<lparr>decode = latin1_codec, encode = latin1_codec, linesep = ''\<newline>'',
      read_error = (\<lambda>path. None), write_error = (\<lambda>path. None)\<rparr>"

definition posix_ascii :: os_env where
  "posix_ascii =
     \<lparr>decode = ascii_codec, encode = ascii_codec, linesep = ''\<newline>'',
      read_error = (\<lambda>path. None), write_error = (\<lambda>path. None)\<rparr>"

definition read_only :: "os_env \<Rightarrow> os_env" where
  "read_only env = env\<lparr>write_error := (\<lambda>path. Some PermissionError)\<rparr>"

text \<open>Example documents and keys.\<close>

definition doc_crlf :: string where
  "doc_crlf = doc_header @ [CHR 0x0D, CHR ''\<newline>'']"

definition doc_not_ascii :: string where
  "doc_not_ascii = doc_header @ [CHR 0xE9]"

definition doc_same_lists :: string where
  "doc_same_lists = ''targets = (A,); targets = (A,);''"

definition doc_products :: string where
  "doc_products = ''D76E4B1F2F2331380090999D /* Products */ = {children = (A,);};''"

definition doc_main_group :: string where
  "doc_main_group = ''D76E4B152F2331380090999D = {children = (A,);};''"

definition doc_attrs :: string where
  "doc_attrs = ''TargetAttributes = {A = {};};''"

definition doc_fs_sync :: string where
  \<open>doc_fs_sync =
     ''/* Begin PBXFileSystemSynchronizedRootGroup section */\<newline>'' @
     tabs 2 @ ''D76E4B202F2331380090999D /* DevCam */ = {isa = PBXFileSystemSynchronizedRootGroup; path = DevCam; sourceTree = "<group>"; };\<newline>'' @
     ''/* End PBXFileSystemSynchronizedRootGroup section */\<newline>''\<close>

definition doc_two_lists :: string where
  "doc_two_lists = ''targets = (A,); targets = (B,);''"

definition doc_proxy_present :: string where
  "doc_proxy_present =
     ''/* Begin PBXContainerItemProxy section */\<newline>/* End PBXContainerItemProxy section */\<newline>''"

definition doc_dependency_present :: string where
  "doc_dependency_present =
     ''/* Begin PBXTargetDependency section */\<newline>/* End PBXTargetDependency section */\<newline>''"

definition doc_file_ref_section :: string where
  "doc_file_ref_section =
     ''// !$*UTF8*$!\<newline>'' @ ''/* Begin PBXFileReference section */'' @
     ''\<newline>/* End PBXFileReference section */\<newline>''"

definition doc_frameworks_section :: string where
  "doc_frameworks_section =
     ''// !$*UTF8*$!\<newline>'' @ ''/* Begin PBXFrameworksBuildPhase section */'' @
     ''\<newline>/* End PBXFrameworksBuildPhase section */\<newline>''"

definition example_keys :: keys where
  "example_keys =
     \<lparr>test_target_uuid = ''0123456789AB4DEF8123A567'',
      test_product_uuid = ''0123456789AB4DEF8123A568'',
      test_sources_uuid = ''0123456789AB4DEF8123A569'',
      test_frameworks_uuid = ''0123456789AB4DEF8123A56A'',
      test_resources_uuid = ''0123456789AB4DEF8123A56B'',
      test_buildconfig_list_uuid = ''0123456789AB4DEF8123A56C'',
      test_debug_config_uuid = ''0123456789AB4DEF8123A56D'',
      test_release_config_uuid = ''0123456789AB4DEF8123A56E'',
      test_dependency_uuid = ''0123456789AB4DEF8123A56F'',
      test_target_dependency_uuid = ''0123456789AB4DEF8123A570'',
      test_group_uuid = ''0123456789AB4DEF8123A571''\<rparr>"

definition doc_target_no_comma :: string where
  "doc_target_no_comma = tabs 2 @ ''D76E4B1D2F2331380090999D /* DevCam */ = {''"

definition doc_target_listed :: string where
  "doc_target_listed = tabs 4 @ ''D76E4B1D2F2331380090999D /* DevCam */,''"

definition uuid4_colliding :: "nat \<Rightarrow> 128 word" where
  "uuid4_colliding i = 0x0123456789AB4DEF8123A56700000000 + word_of_nat i"

definition doc_same_key :: string where
  "doc_same_key =
     tabs 2 @ ''0123456789AB4DEF8123A567 /* DevCam */ = {isa = PBXNativeTarget; };''"

section \<open>Properties of the string operations\<close>

lemma contains_iff: "contains s pat \<longleftrightarrow> (\<exists>ps ss. s = ps @ pat @ ss)"
proof (induction s)
  case Nil
  then show ?case by auto
next
  case (Cons c cs)
  show ?case
  proof
    assume "contains (c # cs) pat"
    then consider "prefix pat (c # cs)" | "contains cs pat" by auto
    then show "\<exists>ps ss. c # cs = ps @ pat @ ss"
    proof cases
      case 1
      then obtain ss where "c # cs = pat @ ss" by (auto simp: prefix_def)
      then have "c # cs = [] @ pat @ ss" by simp
      then show ?thesis by blast
    next
      case 2
      with Cons.IH obtain ps ss where "cs = ps @ pat @ ss" by blast
      then have "c # cs = (c # ps) @ pat @ ss" by simp
      then show ?thesis by blast
    qed
  next
    assume "\<exists>ps ss. c # cs = ps @ pat @ ss"
    then obtain ps ss where eq: "c # cs = ps @ pat @ ss" by blast
    show "contains (c # cs) pat"
    proof (cases ps)
      case Nil
      with eq have "prefix pat (c # cs)" by (simp add: prefix_def)
      then show ?thesis by simp
    next
      case (Cons p ps')
      with eq have "cs = ps' @ pat @ ss" by simp
      with Cons.IH have "contains cs pat" by blast
      then show ?thesis by simp
    qed
  qed
qed

lemma contains_Nil [simp]: "contains s []"
  by (cases s) auto

lemma contains_self: "contains s s"
proof -
  have "s = [] @ s @ []" by simp
  then show ?thesis unfolding contains_iff by blast
qed

lemma replace_ne_absent: "\<not> contains s old \<Longrightarrow> replace_ne old new s = s"
  by (induction s) auto

lemma replace_absent: "\<not> contains s old \<Longrightarrow> replace s old new = s"
  using replace_ne_absent[of s old new] by (cases "old = []") (auto simp: replace_def)

lemma prefix_append_short:
  "prefix xs (ys @ zs) \<Longrightarrow> length xs \<le> length ys \<Longrightarrow> prefix xs ys"
  by (auto simp: prefix_append)

lemma replace_ne_first:
  assumes "old \<noteq> []" and "\<not> contains (pre @ butlast old) old"
  shows "replace_ne old new (pre @ old @ post) = pre @ new @ replace_ne old new post"
  using assms(2)
proof (induction pre)
  case Nil
  from assms(1) obtain c os where old: "old = c # os" by (cases old) auto
  then show ?case by simp
next
  case (Cons c pre)
  from assms(1) have len: "length old \<le> length ((c # pre) @ butlast old)" by (cases old) auto
  have "\<not> prefix old ((c # pre) @ butlast old)" and rest: "\<not> contains (pre @ butlast old) old"
    using Cons.prems by auto
  moreover have "(c # pre) @ old @ post = ((c # pre) @ butlast old) @ (last old # post)"
    using assms(1) by simp
  ultimately have "\<not> prefix old ((c # pre) @ old @ post)"
    using prefix_append_short[OF _ len] by metis
  then show ?case using Cons.IH[OF rest] by simp
qed

lemma replace_once:
  assumes "old \<noteq> []" and "\<not> contains (pre @ butlast old) old" and "\<not> contains post old"
  shows "replace (pre @ old @ post) old new = pre @ new @ post"
  using replace_ne_first[OF assms(1,2)] replace_ne_absent[OF assms(3)] assms(1)
  by (simp add: replace_def)

lemma replace_ne_subseq:
  "old \<noteq> [] \<Longrightarrow> subseq old new \<Longrightarrow> subseq s (replace_ne old new s)"
proof (induction old new s rule: replace_ne.induct)
  case (1 old new)
  then show ?case by simp
next
  case (2 old new c cs)
  show ?case
  proof (cases "prefix old (c # cs)")
    case True
    then obtain rest where eq: "c # cs = old @ rest" by (auto simp: prefix_def)
    with 2(3) have "drop (length old - 1) cs = rest" by (cases old) auto
    with 2 True have "subseq rest (replace_ne old new (drop (length old - 1) cs))" by simp
    with 2(4) have "subseq (old @ rest) (new @ replace_ne old new (drop (length old - 1) cs))"
      by (rule list_emb_append_mono)
    moreover have "replace_ne old new (c # cs) = new @ replace_ne old new (drop (length old - 1) cs)"
      using True by simp
    ultimately show ?thesis by (simp only: eq)
  next
    case False
    with 2 show ?thesis by simp
  qed
qed

lemma subseq_interleave: "subseq s (new @ concat (map (\<lambda>c. c # new) s))"
proof -
  have "subseq s (concat (map (\<lambda>c. c # new) s))"
    by (induction s) (auto intro: list_emb_append2)
  then show ?thesis by (rule list_emb_append2)
qed

lemma replace_subseq: "subseq old new \<Longrightarrow> subseq s (replace s old new)"
  using replace_ne_subseq[of old new s] subseq_interleave[of s new]
  by (simp add: replace_def)

lemma replace_ne_length_le:
  "old \<noteq> [] \<Longrightarrow> length old \<le> length new \<Longrightarrow> length s \<le> length (replace_ne old new s)"
proof (induction old new s rule: replace_ne.induct)
  case (1 old new)
  then show ?case by simp
next
  case (2 old new c cs)
  show ?case
  proof (cases "prefix old (c # cs)")
    case True
    then have "length old \<le> Suc (length cs)" using prefix_length_le by fastforce
    with 2 True show ?thesis by (cases old) auto
  next
    case False
    with 2 show ?thesis by simp
  qed
qed

lemma replace_ne_length_less:
  "old \<noteq> [] \<Longrightarrow> length old < length new \<Longrightarrow> contains s old \<Longrightarrow>
   length s < length (replace_ne old new s)"
proof (induction s)
  case Nil
  then show ?case by simp
next
  case (Cons c cs)
  show ?case
  proof (cases "prefix old (c # cs)")
    case True
    then have l: "length old \<le> Suc (length cs)" using prefix_length_le by fastforce
    have "length (drop (length old - 1) cs) \<le> length (replace_ne old new (drop (length old - 1) cs))"
      using replace_ne_length_le[of old new "drop (length old - 1) cs"] Cons.prems by simp
    with True l Cons.prems show ?thesis by (cases old) auto
  next
    case False
    with Cons show ?thesis by simp
  qed
qed

lemma replace_changes:
  assumes "contains s old" and "length old < length new"
  shows "replace s old new \<noteq> s"
proof (cases "old = []")
  case True
  have "length (concat (map (\<lambda>c. c # new) s)) = length s * Suc (length new)"
    by (induction s) auto
  with True assms(2) have "length (replace s old new) > length s"
    by (simp add: replace_def)
  then show ?thesis by auto
next
  case False
  with replace_ne_length_less[OF False assms(2,1)] show ?thesis by (auto simp: replace_def)
qed

section \<open>Properties of the matcher\<close>

lemma rmatch_split: "(g, m, rest) \<in> set (rmatch r s) \<Longrightarrow> s = m @ rest"
proof (induction r arbitrary: s g m rest)
  case (Lit l)
  then show ?case by (auto simp: prefix_def split: if_splits)
next
  case (Cat r1 r2)
  then obtain g1 m1 rest1 g2 m2 where
    a: "(g1, m1, rest1) \<in> set (rmatch r1 s)" and b: "(g2, m2, rest) \<in> set (rmatch r2 rest1)"
    and m: "m = m1 @ m2"
    by auto
  from Cat.IH(1)[OF a] Cat.IH(2)[OF b] m show ?case by simp
qed (auto split: if_splits)

lemma rmatch_ngroups: "(g, m, rest) \<in> set (rmatch r s) \<Longrightarrow> length g = ngroups r"
proof (induction r arbitrary: s g m rest)
  case (Cat r1 r2)
  then obtain g1 m1 rest1 g2 m2 where
    a: "(g1, m1, rest1) \<in> set (rmatch r1 s)" and b: "(g2, m2, rest) \<in> set (rmatch r2 rest1)"
    and g: "g = g1 @ g2"
    by auto
  from Cat.IH(1)[OF a] Cat.IH(2)[OF b] g show ?case by simp
qed (auto split: if_splits)

lemma re_search_Some:
  "re_search r s = Some mo \<Longrightarrow>
   \<exists>pre g m rest. s = pre @ m @ rest \<and> mo = m # g \<and> (g, m, rest) \<in> set (rmatch r (m @ rest))"
proof (induction s)
  case Nil
  then obtain g m rest tl where r: "rmatch r [] = (g, m, rest) # tl" and mo: "mo = m # g"
    by (auto split: list.splits)
  then have in_set: "(g, m, rest) \<in> set (rmatch r [])" by simp
  from rmatch_split[OF this] have "[] = m @ rest" .
  with in_set mo show ?case by auto
next
  case (Cons c cs)
  show ?case
  proof (cases "rmatch r (c # cs)")
    case Nil
    with Cons.prems have "re_search r cs = Some mo" by simp
    from Cons.IH[OF this] obtain pre g m rest where
      "cs = pre @ m @ rest" "mo = m # g" "(g, m, rest) \<in> set (rmatch r (m @ rest))" by blast
    then have "c # cs = (c # pre) @ m @ rest" by simp
    with \<open>mo = m # g\<close> \<open>(g, m, rest) \<in> set (rmatch r (m @ rest))\<close> show ?thesis by blast
  next
    case (Cons x xs)
    obtain g m rest where x: "x = (g, m, rest)" by (cases x) auto
    with Cons Cons.prems have mo: "mo = m # g" by simp
    from Cons x have in_set: "(g, m, rest) \<in> set (rmatch r (c # cs))" by simp
    from rmatch_split[OF this] have eq: "c # cs = [] @ m @ rest" by simp
    with in_set have "(g, m, rest) \<in> set (rmatch r (m @ rest))" by simp
    with eq mo show ?thesis by blast
  qed
qed

lemma re_search_length: "re_search r s = Some mo \<Longrightarrow> length mo = Suc (ngroups r)"
  using re_search_Some[of r s mo] rmatch_ngroups by fastforce

lemma re_search_None_Nil: "re_search r s = None \<Longrightarrow> rmatch r s = []"
  by (cases s) (auto split: list.splits)

lemma re_search_None:
  "re_search r (pre @ s) = None \<Longrightarrow> rmatch r s = []"
proof (induction pre)
  case Nil
  then show ?case by (simp add: re_search_None_Nil)
next
  case (Cons c pre)
  then show ?case by (auto split: list.splits)
qed

lemma re_search_Lit: "re_search (Lit l) s = None \<longleftrightarrow> \<not> contains s l"
  by (induction s) (auto split: if_splits)

text \<open>A pattern of three groups without inner groups.\<close>

lemma rmatch_three_groups:
  assumes "(g, m, rest) \<in> set (rmatch (cats [Group a, Group b, Group c]) s)"
    and "ngroups a = 0" "ngroups b = 0" "ngroups c = 0"
  shows "\<exists>g1 g2 g3. g = [g1, g2, g3] \<and> m = g1 @ g2 @ g3
           \<and> (\<exists>r1. ([], g1, r1) \<in> set (rmatch a s))"
proof -
  from assms(1) obtain ga ma ra gb mb rb gc mc where
    a: "(ga, ma, ra) \<in> set (rmatch a s)" and b: "(gb, mb, rb) \<in> set (rmatch b ra)"
    and c: "(gc, mc, rest) \<in> set (rmatch c rb)"
    and g: "g = (ma # ga) @ (mb # gb) @ (mc # gc)" and m: "m = ma @ mb @ mc"
    by auto
  from rmatch_ngroups[OF a] rmatch_ngroups[OF b] rmatch_ngroups[OF c] assms(2-4)
  have "ga = []" "gb = []" "gc = []" by auto
  with g m a show ?thesis by auto
qed

lemma re_search_three_groups:
  assumes "re_search (cats [Group a, Group b, Group c]) s = Some mo"
    and "ngroups a = 0" "ngroups b = 0" "ngroups c = 0"
  shows "\<exists>g1 g2 g3. mo = [g1 @ g2 @ g3, g1, g2, g3] \<and> contains s (g1 @ g2 @ g3)
           \<and> (\<exists>t r1. ([], g1, r1) \<in> set (rmatch a t))"
proof -
  from re_search_Some[OF assms(1)] obtain pre g m rest where
    s: "s = pre @ m @ rest" and mo: "mo = m # g"
    and r: "(g, m, rest) \<in> set (rmatch (cats [Group a, Group b, Group c]) (m @ rest))" by blast
  from rmatch_three_groups[OF r assms(2-4)] obtain g1 g2 g3 r1 where
    "g = [g1, g2, g3]" "m = g1 @ g2 @ g3" "([], g1, r1) \<in> set (rmatch a (m @ rest))" by blast
  moreover from s have "contains s m" unfolding contains_iff by blast
  ultimately show ?thesis using mo by blast
qed

section \<open>Properties of key generation\<close>

lemma nibble_less: "nibble u i < 16"
proof -
  have "drop_bit (4 * (31 - i)) u AND 15 \<le> 15"
    by (rule word_and_le1)
  then have "unat (drop_bit (4 * (31 - i)) u AND 15) \<le> unat (15 :: 128 word)"
    by (simp only: word_le_nat_alt)
  then show ?thesis by (simp add: nibble_def)
qed

lemma upper_hex_digits: "map (\<lambda>n. upper_char (hex_digit n)) [0..<16] = ''0123456789ABCDEF''"
  by code_simp

lemma upper_hex_digit_nth: "n < 16 \<Longrightarrow> upper_char (hex_digit n) = ''0123456789ABCDEF'' ! n"
proof -
  assume n: "n < 16"
  then have "map (\<lambda>n. upper_char (hex_digit n)) [0..<16] ! n = upper_char (hex_digit n)"
    by (simp del: upt_Suc)
  then show ?thesis by (simp only: upper_hex_digits)
qed

lemma length_hex: "length (hex u) = 32"
  by (simp add: hex_def)

lemma upper_hex_digit_in:
  "n < 16 \<Longrightarrow> upper_char (hex_digit n) \<in> set ''0123456789ABCDEF''"
  by (simp only: upper_hex_digit_nth) (rule nth_mem, simp)

lemma upper_hex_digit_inj:
  assumes "n < 16" "m < 16" "upper_char (hex_digit n) = upper_char (hex_digit m)"
  shows "n = m"
proof -
  have "distinct ''0123456789ABCDEF''" by simp
  moreover have "''0123456789ABCDEF'' ! n = ''0123456789ABCDEF'' ! m"
    using assms by (simp only: upper_hex_digit_nth)
  ultimately show ?thesis using assms(1,2) by (simp add: nth_eq_iff_index_eq)
qed

lemma hex_digit_not_hyphen:
  "n < 16 \<Longrightarrow> upper_char (hex_digit n) \<noteq> CHR ''-''"
  using upper_hex_digit_in[of n] by auto

lemma replace_ne_single_skip:
  "c \<notin> set a \<Longrightarrow> replace_ne [c] new (a @ c # b) = a @ new @ replace_ne [c] new b"
  by (induction a) auto

lemma replace_ne_single_none: "c \<notin> set a \<Longrightarrow> replace_ne [c] new a = a"
  by (induction a) auto

lemma upper_hex_set: "set (upper (hex u)) \<subseteq> set ''0123456789ABCDEF''"
  using upper_hex_digit_in[OF nibble_less] by (auto simp: upper_def hex_def)

lemma generate_uuid_1_eq: "generate_uuid_1 u = generate_uuid u"
proof -
  define H where "H = upper (hex u)"
  have nh: "CHR ''-'' \<notin> set H"
    using upper_hex_set[of u] unfolding H_def by auto
  have len: "length H = 32" by (simp add: H_def upper_def length_hex)
  have up: "upper (str_uuid u) =
      take 8 H @ CHR ''-'' # take 4 (drop 8 H) @ CHR ''-'' # take 4 (drop 12 H) @ CHR ''-'' #
      take 4 (drop 16 H) @ CHR ''-'' # drop 20 H"
    by (simp add: str_uuid_def upper_def H_def take_map drop_map upper_char_def)
  have notin: "\<And>n m. CHR ''-'' \<notin> set (take n (drop m H))" "\<And>m. CHR ''-'' \<notin> set (drop m H)"
    "\<And>m. CHR ''-'' \<notin> set (take m H)"
    using nh by (auto dest: in_set_takeD in_set_dropD)
  have "replace (upper (str_uuid u)) ''-'' [] =
      take 8 H @ take 4 (drop 8 H) @ take 4 (drop 12 H) @ take 4 (drop 16 H) @ drop 20 H"
    unfolding up replace_def
    by (simp add: replace_ne_single_skip replace_ne_single_none notin del: replace_ne.simps)
  also have "\<dots> = H"
  proof -
    have "take 4 (drop 16 H) @ drop 20 H = drop 16 H"
      using append_take_drop_id[of 4 "drop 16 H"] by simp
    moreover have "take 4 (drop 12 H) @ drop 16 H = drop 12 H"
      using append_take_drop_id[of 4 "drop 12 H"] by simp
    moreover have "take 4 (drop 8 H) @ drop 12 H = drop 8 H"
      using append_take_drop_id[of 4 "drop 8 H"] by simp
    ultimately show ?thesis by simp
  qed
  finally show ?thesis
    by (simp add: generate_uuid_1_def generate_uuid_def H_def upper_def take_map)
qed

text \<open>
  C9: every call of \<open>generate_uuid\<close>, in either script, returns exactly 24 characters,
  each of them an upper-case hexadecimal digit (0-9 or A-F).
\<close>

theorem generate_uuid_format:
  "length (generate_uuid u) = 24 \<and> list_all (\<lambda>c. c \<in> set ''0123456789ABCDEF'') (generate_uuid u)
   \<and> length (generate_uuid_1 u) = 24
   \<and> list_all (\<lambda>c. c \<in> set ''0123456789ABCDEF'') (generate_uuid_1 u)"
proof -
  have a: "length (generate_uuid u) = 24"
    by (simp add: generate_uuid_def upper_def length_hex)
  have "set (generate_uuid u) \<subseteq> set (upper (hex u))"
    by (auto simp: generate_uuid_def upper_def dest: in_set_takeD)
  with upper_hex_set[of u] have b: "list_all (\<lambda>c. c \<in> set ''0123456789ABCDEF'') (generate_uuid u)"
    unfolding list_all_iff by blast
  show ?thesis using a b by (simp only: generate_uuid_1_eq simp_thms)
qed

section \<open>Equal keys\<close>

lemma generate_uuid_map:
  "generate_uuid u = map (\<lambda>i. upper_char (hex_digit (nibble u i))) [0..<24]"
proof -
  have "take 24 (map (\<lambda>i. hex_digit (nibble u i)) [0..<32]) =
        map (\<lambda>i. hex_digit (nibble u i)) (take 24 [0..<32])"
    by (rule take_map)
  also have "take 24 [0..<32] = [0..<24]" by (simp add: take_upt)
  finally show ?thesis by (simp add: generate_uuid_def upper_def hex_def)
qed

lemma bit_15: "m < 4 \<Longrightarrow> bit (15 :: 128 word) m"
proof -
  assume m: "m < 4"
  have e: "(15 :: 128 word) = mask 4" by (simp add: mask_eq_exp_minus_1)
  show "bit (15 :: 128 word) m" unfolding e using m by (simp only: bit_mask_iff) simp
qed

lemma nibble_eq_bits:
  assumes "nibble u i = nibble v i" and "m < 4"
  shows "bit u (4 * (31 - i) + m) = bit v (4 * (31 - i) + m)"
proof -
  from assms(1) have "drop_bit (4 * (31 - i)) u AND 15 = drop_bit (4 * (31 - i)) v AND 15"
    by (simp add: nibble_def word_unat_eq_iff)
  then have "bit (drop_bit (4 * (31 - i)) u AND 15) m = bit (drop_bit (4 * (31 - i)) v AND 15) m"
    by simp
  then show ?thesis using bit_15[OF assms(2)] by (simp add: bit_and_iff bit_drop_bit_eq)
qed

lemma generate_uuid_eq_iff:
  "generate_uuid u = generate_uuid v \<longleftrightarrow> drop_bit 32 u = drop_bit 32 v"
proof
  assume eq: "generate_uuid u = generate_uuid v"
  have nib: "nibble u i = nibble v i" if "i < 24" for i
  proof -
    from eq have "map (\<lambda>i. upper_char (hex_digit (nibble u i))) [0..<24] ! i =
                  map (\<lambda>i. upper_char (hex_digit (nibble v i))) [0..<24] ! i"
      by (simp only: generate_uuid_map)
    with that have "upper_char (hex_digit (nibble u i)) = upper_char (hex_digit (nibble v i))"
      by simp
    then show ?thesis using upper_hex_digit_inj nibble_less by blast
  qed
  show "drop_bit 32 u = drop_bit 32 v"
  proof (rule bit_eqI)
    fix n
    show "bit (drop_bit 32 u) n = bit (drop_bit 32 v) n"
    proof (cases "n < 96")
      case True
      define j where "j = 32 + n"
      define i where "i = 31 - j div 4"
      have i: "i < 24" and j: "4 * (31 - i) + j mod 4 = j" using True by (auto simp: i_def j_def)
      from nibble_eq_bits[OF nib[OF i], of "j mod 4"] j have "bit u j = bit v j" by simp
      then show ?thesis by (simp add: bit_drop_bit_eq j_def)
    next
      case False
      then have "\<not> bit u (32 + n)" "\<not> bit v (32 + n)"
        by (auto dest: bit_imp_le_length)
      then show ?thesis by (simp add: bit_drop_bit_eq)
    qed
  qed
next
  assume eq: "drop_bit 32 u = drop_bit 32 v"
  have "nibble u i = nibble v i" if "i < 24" for i
  proof -
    have "4 * (31 - i) = (4 * (31 - i) - 32) + 32" using that by simp
    then have "drop_bit (4 * (31 - i)) w = drop_bit (4 * (31 - i) - 32) (drop_bit 32 w)"
      for w :: "128 word"
      by (metis drop_bit_drop_bit add.commute)
    then show ?thesis by (simp only: nibble_def eq)
  qed
  then show "generate_uuid u = generate_uuid v" by (simp add: generate_uuid_map)
qed

lemma distinct_map_cong:
  "(\<And>a b. f a = f b \<longleftrightarrow> g a = g b) \<Longrightarrow> distinct (map f xs) = distinct (map g xs)"
proof (induction xs)
  case Nil
  then show ?case by simp
next
  case (Cons x xs)
  have "f x \<in> f ` set xs \<longleftrightarrow> g x \<in> g ` set xs" using Cons.prems by (auto simp: image_iff)
  with Cons show ?case by simp
qed

lemma key_list_map:
  "key_list (generate_keys uuid4) = map (\<lambda>i. generate_uuid (uuid4 i)) [0..<11]"
proof -
  have "[0..<11] = [0, 1, 2, 3, 4, 5, 6, 7, 8, 9, 10 :: nat]" by code_simp
  then show ?thesis by (simp add: key_list_def generate_keys_def)
qed

text \<open>
  C5 (amended): a key is the first 24 hexadecimal digits, that is the 96 leading bits, of a
  uuid4 value, and the script compares the keys neither with each other nor with the keys
  of the document. Two generated keys are equal exactly when the two uuid4 values agree in
  their 96 leading bits, so the eleven keys of a run are pairwise distinct exactly when
  these 96-bit prefixes are.
\<close>

theorem key_collisions:
  "(generate_uuid u = generate_uuid v \<longleftrightarrow> drop_bit 32 u = drop_bit 32 v)
   \<and> (distinct (key_list (generate_keys uuid4))
        \<longleftrightarrow> distinct (map (\<lambda>i. drop_bit 32 (uuid4 i)) [0..<11]))"
  using generate_uuid_eq_iff
    distinct_map_cong[of "\<lambda>i. generate_uuid (uuid4 i)" "\<lambda>i. drop_bit 32 (uuid4 i)" "[0..<11]"]
  by (simp only: key_list_map)

lemma colliding_keys:
  "key_list (generate_keys uuid4_colliding) = replicate 11 ''0123456789AB4DEF8123A567''"
  by code_simp

theorem key_collision_counterexample:
  "distinct (map uuid4_colliding [0..<11])
   \<and> list_all is_uuid4 (map uuid4_colliding [0..<11])
   \<and> \<not> distinct (key_list (generate_keys uuid4_colliding))
   \<and> contains doc_same_key (test_target_uuid (generate_keys uuid4_colliding))
   \<and> \<not> contains doc_same_key ''DevCamTests''"
proof -
  have "distinct (map uuid4_colliding [0..<11])" by code_simp
  moreover have "list_all is_uuid4 (map uuid4_colliding [0..<11])" by code_simp
  moreover have "\<not> distinct (key_list (generate_keys uuid4_colliding))"
    unfolding colliding_keys by code_simp
  moreover have "test_target_uuid (generate_keys uuid4_colliding) = ''0123456789AB4DEF8123A567''"
    using arg_cong[OF colliding_keys, of hd] by (simp add: key_list_def)
  moreover have "contains doc_same_key ''0123456789AB4DEF8123A567''" by code_simp
  moreover have "\<not> contains doc_same_key ''DevCamTests''" by code_simp
  ultimately show ?thesis by simp
qed

section \<open>Reading and writing text\<close>

lemma universal_newlines_id: "CHR 0x0D \<notin> set s \<Longrightarrow> universal_newlines s = s"
  by (induction s rule: universal_newlines.induct) auto

lemma write_newlines_lf: "write_newlines ''\<newline>'' s = s"
  by (induction s) (auto simp: write_newlines_def)

lemma read_text_latin1:
  "CHR 0x0D \<notin> set s \<Longrightarrow> read_text posix_latin1 [path \<mapsto> s] path = Inr s"
  by (simp add: read_text_def posix_latin1_def latin1_codec_def universal_newlines_id)

lemma encode_latin1:
  "encode posix_latin1 (write_newlines (linesep posix_latin1) s) = Some s"
  by (simp add: posix_latin1_def latin1_codec_def write_newlines_lf)

lemma writable_latin1: "write_error posix_latin1 path = None"
  by (simp add: posix_latin1_def)

section \<open>Properties of add_test_target.py\<close>

lemma paths_agree: "pbxproj_path = project_path_complete"
  by (simp add: pbxproj_path_def project_path_def project_dir_def project_path_complete_def)


section \<open>The idempotence guard\<close>

text \<open>
  C1: when the project file already contains \<open>DevCamTests\<close>, a run of either script leaves
  the file system as it was, writes no file (no step is applied), prints the
  already-exists message and exits with code 0.
\<close>

theorem already_applied:
  assumes "read_text env fs project_path_complete = Inr content"
    and "contains content ''DevCamTests''"
  shows "add_test_target_complete env uuid4 fs =
           \<lparr>files = fs, stdout = [''Test target already exists!''], written = [],
            status = Exited 0\<rparr>
         \<and> add_test_target env uuid4 fs =
           \<lparr>files = fs, stdout = [''Test target already exists''], written = [],
            status = Exited 0\<rparr>"
  using assms by (simp add: add_test_target_complete_def add_test_target_def paths_agree)

lemma applied_example:
  "read_text posix_latin1 [project_path_complete \<mapsto> ''name = DevCamTests;'']
     project_path_complete = Inr ''name = DevCamTests;''"
  by (rule read_text_latin1) simp

theorem already_applied_witness:
  "read_text posix_latin1 [project_path_complete \<mapsto> ''name = DevCamTests;'']
     project_path_complete = Inr ''name = DevCamTests;''
   \<and> contains ''name = DevCamTests;'' ''DevCamTests''
   \<and> add_test_target_complete posix_latin1 (\<lambda>i. 0)
       [project_path_complete \<mapsto> ''name = DevCamTests;''] =
       \<lparr>files = [project_path_complete \<mapsto> ''name = DevCamTests;''],
        stdout = [''Test target already exists!''], written = [], status = Exited 0\<rparr>
   \<and> add_test_target posix_latin1 (\<lambda>i. 0) [project_path_complete \<mapsto> ''name = DevCamTests;''] =
       \<lparr>files = [project_path_complete \<mapsto> ''name = DevCamTests;''],
        stdout = [''Test target already exists''], written = [], status = Exited 0\<rparr>"
  using already_applied [of posix_latin1 "[project_path_complete \<mapsto> ''name = DevCamTests;'']"
      "''name = DevCamTests;''" "\<lambda>i. 0"] applied_example
  by simp

section \<open>Properties of the steps\<close>

lemma group_simps [simp]:
  "group (a # m) 0 = a" "group (a # b # m) (Suc 0) = b" "group (a # b # c # m) 2 = c"
  "group (a # b # c # d # m) 3 = d"
  by (simp_all add: group_def numeral_2_eq_2 numeral_3_eq_3)

lemma contains_trans: "contains s m \<Longrightarrow> contains m l \<Longrightarrow> contains s l"
proof -
  assume "contains s m" "contains m l"
  then obtain p1 s1 p2 s2 where "s = p1 @ m @ s1" "m = p2 @ l @ s2"
    unfolding contains_iff by blast
  then have "s = (p1 @ p2) @ l @ (s2 @ s1)" by simp
  then show ?thesis unfolding contains_iff by blast
qed

lemma contains_prefix: "prefix l m \<Longrightarrow> contains m l"
  unfolding contains_iff prefix_def by (metis append_Nil)

lemma append_to_list_changes:
  assumes "re_search (cats [Group a, Group b, Group c]) s = Some mo"
    and "ngroups a = 0" "ngroups b = 0" "ngroups c = 0" and "item \<noteq> []"
  shows "append_to_list (cats [Group a, Group b, Group c]) item s \<noteq> s"
proof -
  from re_search_three_groups[OF assms(1-4)] obtain g1 g2 g3 where
    mo: "mo = [g1 @ g2 @ g3, g1, g2, g3]" and c: "contains s (g1 @ g2 @ g3)" by blast
  have "length (g1 @ g2 @ g3) < length (g1 @ (g2 @ item) @ g3)" using assms(5) by simp
  from replace_changes[OF c this] show ?thesis
    using assms(1) mo by (simp add: append_to_list_def)
qed

lemma append_to_list_subseq:
  assumes "ngroups a = 0" "ngroups b = 0" "ngroups c = 0"
  shows "subseq s (append_to_list (cats [Group a, Group b, Group c]) item s)"
proof (cases "re_search (cats [Group a, Group b, Group c]) s")
  case None
  then show ?thesis by (simp add: append_to_list_def)
next
  case (Some mo)
  from re_search_three_groups[OF Some assms] obtain g1 g2 g3 where
    mo: "mo = [g1 @ g2 @ g3, g1, g2, g3]" by blast
  have "subseq (g1 @ g2 @ g3) (g1 @ (g2 @ item) @ g3)"
    by (intro list_emb_append_mono subseq_order.order_refl) (simp add: list_emb_prefix)
  from replace_subseq[OF this] show ?thesis using Some mo by (simp add: append_to_list_def)
qed

lemma search_starts_with_literal:
  assumes "re_search (cats [Group (Cat (Lit l) r), Group b, Group c]) s = Some mo"
    and "ngroups r = 0" "ngroups b = 0" "ngroups c = 0"
  shows "contains s l"
proof -
  have "ngroups (Cat (Lit l) r) = 0" using assms(2) by simp
  from re_search_three_groups[OF assms(1) this assms(3,4)] obtain g1 g2 g3 t r1 where
    c: "contains s (g1 @ g2 @ g3)" and g1: "([], g1, r1) \<in> set (rmatch (Cat (Lit l) r) t)"
    by blast
  from g1 have "prefix l g1" by (auto split: if_splits)
  then have "prefix l (g1 @ g2 @ g3)" by simp
  from contains_trans[OF c contains_prefix[OF this]] show ?thesis .
qed

text \<open>Every step only inserts text: its input is a subsequence of its output.\<close>

lemma insert_before_subseq: "subseq c (insert_before anchor marker entry c)"
proof -
  have "subseq marker (entry @ marker)" by (rule list_emb_append2) simp
  from replace_subseq[OF this] show ?thesis
    by (simp add: insert_before_def split: option.splits)
qed

lemma create_section_subseq: "subseq c (create_section begin_marker block next_marker c)"
proof -
  have "subseq next_marker (block @ next_marker)" by (rule list_emb_append2) simp
  from replace_subseq[OF this] show ?thesis by (simp add: create_section_def)
qed

lemma steps_subseq: "f \<in> set (steps k) \<Longrightarrow> subseq c (f c)"
  unfolding steps_def step1_def step2_def step3_def step4_def step5_def step6_def step7_def
    step8_def step9_def step10_def step11_def step12_def step13_def step14_def
    products_group_re_def main_group_re_def targets_list_re_def target_attrs_re_def
  using insert_before_subseq create_section_subseq append_to_list_subseq
  by auto

lemma fold_subseq:
  "(\<And>f c. f \<in> set fs \<Longrightarrow> subseq c (f c)) \<Longrightarrow> subseq c (fold (\<lambda>step c. step c) fs c)"
proof (induction fs arbitrary: c)
  case Nil
  then show ?case by simp
next
  case (Cons f fs)
  have "subseq c (f c)" using Cons.prems by simp
  moreover have "subseq (f c) (fold (\<lambda>step c. step c) fs (f c))"
    using Cons.IH Cons.prems by simp
  ultimately show ?case using subseq_order.order_trans by fastforce
qed

lemma fold_fixed:
  assumes "\<And>f c. f \<in> set fs \<Longrightarrow> subseq c (f c)"
    and "fold (\<lambda>step c. step c) fs c = c"
  shows "\<forall>f \<in> set fs. f c = c"
  using assms
proof (induction fs)
  case Nil
  then show ?case by simp
next
  case (Cons f fs)
  have a: "subseq c (f c)" using Cons.prems(1) by simp
  have "subseq (f c) (fold (\<lambda>step c. step c) fs (f c))"
    using fold_subseq[of fs "f c"] Cons.prems(1) by simp
  then have b: "subseq (f c) c" using Cons.prems(2) by simp
  from a b have fc: "f c = c" by (rule subseq_order.antisym[symmetric])
  with Cons.prems(2) have "fold (\<lambda>step c. step c) fs c = c" by simp
  with Cons.IH Cons.prems(1) have "\<forall>f \<in> set fs. f c = c" by simp
  with fc show ?case by simp
qed

lemma fold_identity: "\<forall>f \<in> set fs. f c = c \<Longrightarrow> fold (\<lambda>step c. step c) fs c = c"
  by (induction fs) auto

lemma patch_subseq: "subseq c (patch k c)"
  unfolding patch_def using steps_subseq by (rule fold_subseq)

lemma patch_unchanged_iff: "patch k c = c \<longleftrightarrow> (\<forall>f \<in> set (steps k). f c = c)"
proof
  assume "patch k c = c"
  then have "fold (\<lambda>step c. step c) (steps k) c = c" by (simp add: patch_def)
  with steps_subseq show "\<forall>f \<in> set (steps k). f c = c" by (rule fold_fixed)
next
  assume "\<forall>f \<in> set (steps k). f c = c"
  then show "patch k c = c" unfolding patch_def by (rule fold_identity)
qed

lemma insert_before_changes:
  assumes "contains c marker" and "entry \<noteq> []"
  shows "insert_before (Lit marker) marker entry c \<noteq> c"
proof -
  from assms(1) have "re_search (Lit marker) c \<noteq> None" by (simp add: re_search_Lit)
  moreover have "replace c marker (entry @ marker) \<noteq> c"
    using assms by (intro replace_changes) auto
  ultimately show ?thesis by (auto simp: insert_before_def)
qed

section \<open>Runs of add_test_target_complete.py\<close>

lemma insert_before_skip:
  "re_search anchor c = None \<Longrightarrow> insert_before anchor marker entry c = c"
  by (simp add: insert_before_def)

lemma append_to_list_skip:
  "re_search anchor c = None \<Longrightarrow> append_to_list anchor item c = c"
  by (simp add: append_to_list_def)

lemma create_section_skip:
  "\<not> contains c next_marker \<Longrightarrow> create_section begin_marker block next_marker c = c"
  by (simp add: create_section_def replace_absent)

lemma patch_no_anchor: "no_anchor_matches c \<Longrightarrow> patch k c = c"
  unfolding no_anchor_matches_def search_anchors_def replace_anchors_def patch_def steps_def
  by (simp add: step1_def step2_def step3_def step4_def step5_def step6_def step7_def
      step8_def step9_def step10_def step11_def step12_def step13_def step14_def
      insert_before_skip append_to_list_skip create_section_skip)

lemma run_not_applied:
  assumes "read_text env fs project_path_complete = Inr content"
    and "\<not> contains content ''DevCamTests''"
    and "write_error env project_path_complete = None"
    and "encode env (write_newlines (linesep env) (patch (generate_keys uuid4) content))
           = Some bytes"
  shows "add_test_target_complete env uuid4 fs =
           \<lparr>files = fs(project_path_complete \<mapsto> bytes),
            stdout = [''Successfully added DevCamTests target to Xcode project!''],
            written = [project_path_complete], status = Exited 0\<rparr>"
  using assms by (simp add: add_test_target_complete_def write_text_def)

lemma run_latin1:
  assumes "CHR 0x0D \<notin> set content" and "\<not> contains content ''DevCamTests''"
  shows "add_test_target_complete posix_latin1 uuid4 [project_path_complete \<mapsto> content] =
           \<lparr>files = [project_path_complete \<mapsto> patch (generate_keys uuid4) content],
            stdout = [''Successfully added DevCamTests target to Xcode project!''],
            written = [project_path_complete], status = Exited 0\<rparr>"
  using run_not_applied[OF read_text_latin1[OF assms(1)] assms(2) writable_latin1 encode_latin1]
  by simp

text \<open>
  C10 (amended): when \<open>DevCamTests\<close> is absent from the text read, the project file can be
  opened for writing and the text left by the fourteen steps can be encoded,
  add_test_target_complete.py always writes the project file, with the encoding of that
  text, prints the success message and exits with code 0. When none of the anchors of the
  steps is found, no step changes the text, so the text written is the text read. The bytes
  written are then the bytes of the input if the input holds no carriage return, encoding
  gives back the bytes that were decoded, and the line separator of the system is \<open>\n\<close>.
\<close>

theorem always_rewrites:
  assumes "read_text env fs project_path_complete = Inr content"
    and "\<not> contains content ''DevCamTests''"
    and "write_error env project_path_complete = None"
    and "encode env (write_newlines (linesep env) (patch (generate_keys uuid4) content))
           = Some bytes"
  shows "add_test_target_complete env uuid4 fs =
           \<lparr>files = fs(project_path_complete \<mapsto> bytes),
            stdout = [''Successfully added DevCamTests target to Xcode project!''],
            written = [project_path_complete], status = Exited 0\<rparr>
         \<and> (no_anchor_matches content \<longrightarrow> patch (generate_keys uuid4) content = content)
         \<and> (no_anchor_matches content \<and> fs project_path_complete = Some input
              \<and> decode env input = Some text \<and> CHR 0x0D \<notin> set text
              \<and> encode env text = Some input \<and> linesep env = ''\<newline>''
            \<longrightarrow> bytes = input)"
proof -
  have "bytes = input"
    if a: "no_anchor_matches content" and f: "fs project_path_complete = Some input"
      and d: "decode env input = Some text" and cr: "CHR 0x0D \<notin> set text"
      and e: "encode env text = Some input" and l: "linesep env = ''\<newline>''"
  proof -
    have "content = universal_newlines text"
      using assms(1) f d by (auto simp: read_text_def split: option.splits)
    then have "content = text" using cr by (simp add: universal_newlines_id)
    moreover have "patch (generate_keys uuid4) content = content"
      using a by (rule patch_no_anchor)
    ultimately show ?thesis using assms(4) e l by (simp add: write_newlines_lf)
  qed
  then show ?thesis
    using run_not_applied[OF assms] patch_no_anchor[of content "generate_keys uuid4"] by simp
qed

lemma doc_header_no_anchor: "no_anchor_matches doc_header"
  by code_simp

lemma doc_header_fresh: "\<not> contains doc_header ''DevCamTests''"
  by code_simp

lemma doc_header_no_cr: "CHR 0x0D \<notin> set doc_header"
  by code_simp

lemma doc_header_read:
  "read_text posix_latin1 [project_path_complete \<mapsto> doc_header] project_path_complete
     = Inr doc_header"
  using doc_header_no_cr by (rule read_text_latin1)

theorem always_rewrites_witness:
  "read_text posix_latin1 [project_path_complete \<mapsto> doc_header] project_path_complete
     = Inr doc_header
   \<and> \<not> contains doc_header ''DevCamTests''
   \<and> write_error posix_latin1 project_path_complete = None
   \<and> encode posix_latin1 (write_newlines (linesep posix_latin1) doc_header) = Some doc_header
   \<and> no_anchor_matches doc_header
   \<and> decode posix_latin1 doc_header = Some doc_header
   \<and> CHR 0x0D \<notin> set doc_header
   \<and> linesep posix_latin1 = ''\<newline>''
   \<and> add_test_target_complete posix_latin1 uuid4_distinct [project_path_complete \<mapsto> doc_header] =
       \<lparr>files = [project_path_complete \<mapsto> doc_header],
        stdout = [''Successfully added DevCamTests target to Xcode project!''],
        written = [project_path_complete], status = Exited 0\<rparr>"
proof -
  have p: "patch (generate_keys uuid4_distinct) doc_header = doc_header"
    using doc_header_no_anchor by (rule patch_no_anchor)
  have e: "encode posix_latin1 (write_newlines (linesep posix_latin1)
      (patch (generate_keys uuid4_distinct) doc_header)) = Some doc_header"
    unfolding p by (rule encode_latin1)
  have d: "decode posix_latin1 doc_header = Some doc_header"
    and l: "linesep posix_latin1 = ''\<newline>''"
    by (simp_all add: posix_latin1_def latin1_codec_def)
  show ?thesis
    using always_rewrites [OF doc_header_read doc_header_fresh writable_latin1 e,
        of doc_header doc_header]
      doc_header_read doc_header_fresh doc_header_no_anchor doc_header_no_cr d l
      writable_latin1[of project_path_complete] encode_latin1[of doc_header]
    by simp
qed

lemma doc_crlf_read:
  "read_text posix_latin1 [project_path_complete \<mapsto> doc_crlf] project_path_complete
     = Inr (doc_header @ ''\<newline>'')"
proof -
  have "universal_newlines doc_crlf = doc_header @ ''\<newline>''" by code_simp
  then show ?thesis by (simp add: read_text_def posix_latin1_def latin1_codec_def)
qed

lemma doc_crlf_examples:
  "\<not> contains (doc_header @ ''\<newline>'') ''DevCamTests''"
  "no_anchor_matches (doc_header @ ''\<newline>'')"
  "doc_header @ ''\<newline>'' \<noteq> doc_crlf"
  by code_simp+

theorem crlf_rewritten_counterexample:
  "read_text posix_latin1 [project_path_complete \<mapsto> doc_crlf] project_path_complete
     = Inr (doc_header @ ''\<newline>'')
   \<and> \<not> contains (doc_header @ ''\<newline>'') ''DevCamTests''
   \<and> no_anchor_matches (doc_header @ ''\<newline>'')
   \<and> patch (generate_keys uuid4_distinct) (doc_header @ ''\<newline>'') = doc_header @ ''\<newline>''
   \<and> files (add_test_target_complete posix_latin1 uuid4_distinct
              [project_path_complete \<mapsto> doc_crlf]) project_path_complete
       = Some (doc_header @ ''\<newline>'')
   \<and> doc_header @ ''\<newline>'' \<noteq> doc_crlf"
proof -
  have p: "patch (generate_keys uuid4_distinct) (doc_header @ ''\<newline>'') = doc_header @ ''\<newline>''"
    using doc_crlf_examples(2) by (rule patch_no_anchor)
  have e: "encode posix_latin1 (write_newlines (linesep posix_latin1)
      (patch (generate_keys uuid4_distinct) (doc_header @ ''\<newline>''))) = Some (doc_header @ ''\<newline>'')"
    unfolding p by (rule encode_latin1)
  show ?thesis
    using run_not_applied[OF doc_crlf_read doc_crlf_examples(1) writable_latin1 e]
      doc_crlf_read doc_crlf_examples p
    by simp
qed

section \<open>When a step changes its input\<close>

lemma insert_before_Lit_iff:
  assumes "entry \<noteq> []"
  shows "insert_before (Lit marker) marker entry c = c \<longleftrightarrow> \<not> contains c marker"
proof
  assume "insert_before (Lit marker) marker entry c = c"
  then show "\<not> contains c marker" using insert_before_changes[OF _ assms] by blast
next
  assume "\<not> contains c marker"
  then have "re_search (Lit marker) c = None" by (simp add: re_search_Lit)
  then show "insert_before (Lit marker) marker entry c = c" by (rule insert_before_skip)
qed

lemma append_to_list_iff:
  assumes "ngroups a = 0" "ngroups b = 0" "ngroups c = 0" and "item \<noteq> []"
  shows "re_search (cats [Group a, Group b, Group c]) s = None
         \<longleftrightarrow> append_to_list (cats [Group a, Group b, Group c]) item s = s"
proof
  assume "re_search (cats [Group a, Group b, Group c]) s = None"
  then show "append_to_list (cats [Group a, Group b, Group c]) item s = s"
    by (rule append_to_list_skip)
next
  assume same: "append_to_list (cats [Group a, Group b, Group c]) item s = s"
  show "re_search (cats [Group a, Group b, Group c]) s = None"
  proof (cases "re_search (cats [Group a, Group b, Group c]) s")
    case (Some mo)
    from append_to_list_changes[OF Some assms] same show ?thesis by simp
  qed simp
qed

lemma append_to_list_match:
  assumes "re_search (cats [Group a, Group b, Group c]) s = Some m"
    and "ngroups a = 0" "ngroups b = 0" "ngroups c = 0"
  shows "append_to_list (cats [Group a, Group b, Group c]) item s
           = replace s (group m 0) (group m 1 @ group m 2 @ item @ group m 3)
         \<and> group m 0 = group m 1 @ group m 2 @ group m 3
         \<and> contains s (group m 0)"
proof -
  from re_search_three_groups[OF assms] obtain g1 g2 g3 where
    m: "m = [g1 @ g2 @ g3, g1, g2, g3]" and c: "contains s (g1 @ g2 @ g3)" by blast
  have "append_to_list (cats [Group a, Group b, Group c]) item s
          = replace s (group m 0) (group m 1 @ group m 2 @ item @ group m 3)"
    using assms(1) by (simp add: append_to_list_def Let_def)
  then show ?thesis using m c by simp
qed

lemma search_starts_with_group_literal:
  assumes "re_search (cats [Group (Lit l), Group b, Group c]) s = Some mo"
    and "ngroups b = 0" "ngroups c = 0"
  shows "contains s l"
proof -
  have "ngroups (Lit l) = 0" by simp
  from re_search_three_groups[OF assms(1) this assms(2,3)] obtain g1 g2 g3 t r1 where
    c: "contains s (g1 @ g2 @ g3)" and g1: "([], g1, r1) \<in> set (rmatch (Lit l) t)"
    by blast
  from g1 have "prefix l g1" by (auto split: if_splits)
  then have "prefix l (g1 @ g2 @ g3)" by simp
  from contains_trans[OF c contains_prefix[OF this]] show ?thesis .
qed

lemma create_section_iff:
  assumes "block \<noteq> []"
  shows "create_section begin_marker block next_marker c = c
         \<longleftrightarrow> contains c begin_marker \<or> \<not> contains c next_marker"
proof (cases "contains c begin_marker")
  case True
  then show ?thesis by (simp add: create_section_def)
next
  case False
  show ?thesis
  proof (cases "contains c next_marker")
    case True
    have "length next_marker < length (block @ next_marker)" using assms by simp
    from replace_changes[OF True this] show ?thesis
      using False True by (simp add: create_section_def)
  next
    case no: False
    then show ?thesis using False by (simp add: create_section_skip)
  qed
qed

lemma rmatch_between_literals:
  assumes "(g, m, rest) \<in> set (rmatch (cats [Lit A, Group x, Lit B]) s)"
  shows "\<exists>y. m = A @ y @ B"
  using assms by (auto split: if_splits)

lemma file_ref_re_end:
  assumes "re_search file_ref_re c = Some mo"
  shows "contains c ''/* End PBXFileReference section */''"
proof -
  from re_search_Some[OF assms] obtain pre g m rest where
    c: "c = pre @ m @ rest" and r: "(g, m, rest) \<in> set (rmatch file_ref_re (m @ rest))"
    by blast
  from rmatch_between_literals[OF r[unfolded file_ref_re_def]] obtain y where
    "m = ''/* Begin PBXFileReference section */\<newline>'' @ y
         @ ''\<newline>/* End PBXFileReference section */''" by blast
  then have "c = (pre @ ''/* Begin PBXFileReference section */\<newline>'' @ y @ ''\<newline>'')
      @ ''/* End PBXFileReference section */'' @ rest"
    using c by simp
  then show ?thesis unfolding contains_iff by blast
qed

lemma step1_iff: "step1 k c = c \<longleftrightarrow> re_search file_ref_re c = None"
proof
  assume same: "step1 k c = c"
  show "re_search file_ref_re c = None"
  proof (cases "re_search file_ref_re c")
    case (Some mo)
    have "length ''/* End PBXFileReference section */''
        < length (new_file_ref k @ ''/* End PBXFileReference section */'')"
      by (simp add: new_file_ref_def)
    from replace_changes[OF file_ref_re_end[OF Some] this] same Some show ?thesis
      by (simp add: step1_def insert_before_def)
  qed simp
next
  assume "re_search file_ref_re c = None"
  then show "step1 k c = c" unfolding step1_def by (rule insert_before_skip)
qed

lemma insert_steps_iff:
  "step2 k c = c \<longleftrightarrow> \<not> contains c ''/* End PBXFileSystemSynchronizedRootGroup section */''"
  "step3 k c = c \<longleftrightarrow> \<not> contains c ''/* End PBXFrameworksBuildPhase section */''"
  "step6 k c = c \<longleftrightarrow> \<not> contains c ''/* End PBXNativeTarget section */''"
  "step11 k c = c \<longleftrightarrow> \<not> contains c ''/* End PBXResourcesBuildPhase section */''"
  "step12 k c = c \<longleftrightarrow> \<not> contains c ''/* End PBXSourcesBuildPhase section */''"
  "step13 k c = c \<longleftrightarrow> \<not> contains c ''/* End XCBuildConfiguration section */''"
  "step14 k c = c \<longleftrightarrow> \<not> contains c ''/* End XCConfigurationList section */''"
  unfolding step2_def step3_def step6_def step11_def step12_def step13_def step14_def
  by (rule insert_before_Lit_iff,
      simp add: new_group_def new_frameworks_def new_target_def new_resources_def
        new_sources_def new_debug_config_def new_config_list_def)+

lemma create_steps_iff:
  "step7 k c = c \<longleftrightarrow> contains c ''/* Begin PBXContainerItemProxy section */''
                       \<or> \<not> contains c ''/* Begin PBXFileReference section */''"
  "step8 k c = c \<longleftrightarrow> contains c ''/* Begin PBXTargetDependency section */''
                       \<or> \<not> contains c ''/* Begin PBXFrameworksBuildPhase section */''"
  unfolding step7_def step8_def
  by (rule create_section_iff, simp add: container_proxy_def target_dependency_def)+

lemma append_steps_iff:
  "re_search products_group_re c = None \<longleftrightarrow> step4 k c = c"
  "re_search main_group_re c = None \<longleftrightarrow> step5 k c = c"
  "re_search targets_list_re c = None \<longleftrightarrow> step9 k c = c"
  "re_search target_attrs_re c = None \<longleftrightarrow> step10 k c = c"
proof -
  show "re_search products_group_re c = None \<longleftrightarrow> step4 k c = c"
    unfolding step4_def products_group_re_def
    by (rule append_to_list_iff) (simp_all add: products_child_def)
  show "re_search main_group_re c = None \<longleftrightarrow> step5 k c = c"
    unfolding step5_def main_group_re_def
    by (rule append_to_list_iff) (simp_all add: main_group_child_def)
  show "re_search targets_list_re c = None \<longleftrightarrow> step9 k c = c"
    unfolding step9_def targets_list_re_def
    by (rule append_to_list_iff) (simp_all add: targets_item_def)
  show "re_search target_attrs_re c = None \<longleftrightarrow> step10 k c = c"
    unfolding step10_def target_attrs_re_def
    by (rule append_to_list_iff) (simp_all add: target_attrs_item_def)
qed

lemma append_steps_head:
  "\<not> contains c ''D76E4B1F2F2331380090999D /* Products */ = {'' \<Longrightarrow> step4 k c = c"
  "\<not> contains c ''D76E4B152F2331380090999D = {'' \<Longrightarrow> step5 k c = c"
  "\<not> contains c ''targets = ('' \<Longrightarrow> step9 k c = c"
  "\<not> contains c ''TargetAttributes = {'' \<Longrightarrow> step10 k c = c"
proof -
  have a: "re_search products_group_re c = None"
    if no: "\<not> contains c ''D76E4B1F2F2331380090999D /* Products */ = {''"
  proof (cases "re_search products_group_re c")
    case (Some mo)
    then have "re_search (cats [Group (Cat (Lit ''D76E4B1F2F2331380090999D /* Products */ = {'')
          (Cat (LazyStar AnyChar) (Cat (Lit ''children = ('') (Star Space)))),
        Group (LazyStar AnyChar), Group (Cat (Star Space) (Lit '');''))]) c = Some mo"
      by (simp add: products_group_re_def)
    from search_starts_with_literal[OF this] no show ?thesis by simp
  qed simp
  have b: "re_search main_group_re c = None"
    if no: "\<not> contains c ''D76E4B152F2331380090999D = {''"
  proof (cases "re_search main_group_re c")
    case (Some mo)
    then have "re_search (cats [Group (Cat (Lit ''D76E4B152F2331380090999D = {'')
          (Cat (LazyStar AnyChar) (Cat (Lit ''children = ('') (Star Space)))),
        Group (LazyStar AnyChar), Group (Cat (Star Space) (Lit '');''))]) c = Some mo"
      by (simp add: main_group_re_def)
    from search_starts_with_literal[OF this] no show ?thesis by simp
  qed simp
  have c: "re_search targets_list_re c = None" if no: "\<not> contains c ''targets = (''"
  proof (cases "re_search targets_list_re c")
    case (Some mo)
    then have "re_search (cats [Group (Cat (Lit ''targets = ('') (Star Space)),
        Group (LazyStar AnyChar), Group (Cat (Star Space) (Lit '');''))]) c = Some mo"
      by (simp add: targets_list_re_def)
    from search_starts_with_literal[OF this] no show ?thesis by simp
  qed simp
  have d: "re_search target_attrs_re c = None" if no: "\<not> contains c ''TargetAttributes = {''"
  proof (cases "re_search target_attrs_re c")
    case (Some mo)
    then have "re_search (cats [Group (Lit ''TargetAttributes = {''),
        Group (LazyStar AnyChar), Group (Cat (Star Space) (Lit ''};''))]) c = Some mo"
      by (simp add: target_attrs_re_def)
    from search_starts_with_group_literal[OF this] no show ?thesis by simp
  qed simp
  show "\<not> contains c ''D76E4B1F2F2331380090999D /* Products */ = {'' \<Longrightarrow> step4 k c = c"
    using a by (simp add: step4_def append_to_list_skip)
  show "\<not> contains c ''D76E4B152F2331380090999D = {'' \<Longrightarrow> step5 k c = c"
    using b by (simp add: step5_def append_to_list_skip)
  show "\<not> contains c ''targets = ('' \<Longrightarrow> step9 k c = c"
    using c by (simp add: step9_def append_to_list_skip)
  show "\<not> contains c ''TargetAttributes = {'' \<Longrightarrow> step10 k c = c"
    using d by (simp add: step10_def append_to_list_skip)
qed

lemma append_steps_match:
  "re_search products_group_re c = Some m \<Longrightarrow>
     step4 k c = replace c (group m 0) (group m 1 @ group m 2 @ products_child k @ group m 3)
     \<and> group m 0 = group m 1 @ group m 2 @ group m 3 \<and> contains c (group m 0)"
  "re_search main_group_re c = Some m \<Longrightarrow>
     step5 k c = replace c (group m 0) (group m 1 @ group m 2 @ main_group_child k @ group m 3)
     \<and> group m 0 = group m 1 @ group m 2 @ group m 3 \<and> contains c (group m 0)"
  "re_search targets_list_re c = Some m \<Longrightarrow>
     step9 k c = replace c (group m 0) (group m 1 @ group m 2 @ targets_item k @ group m 3)
     \<and> group m 0 = group m 1 @ group m 2 @ group m 3 \<and> contains c (group m 0)"
  "re_search target_attrs_re c = Some m \<Longrightarrow>
     step10 k c = replace c (group m 0) (group m 1 @ group m 2 @ target_attrs_item k @ group m 3)
     \<and> group m 0 = group m 1 @ group m 2 @ group m 3 \<and> contains c (group m 0)"
proof -
  show "re_search products_group_re c = Some m \<Longrightarrow>
     step4 k c = replace c (group m 0) (group m 1 @ group m 2 @ products_child k @ group m 3)
     \<and> group m 0 = group m 1 @ group m 2 @ group m 3 \<and> contains c (group m 0)"
    unfolding step4_def products_group_re_def by (rule append_to_list_match) simp_all
  show "re_search main_group_re c = Some m \<Longrightarrow>
     step5 k c = replace c (group m 0) (group m 1 @ group m 2 @ main_group_child k @ group m 3)
     \<and> group m 0 = group m 1 @ group m 2 @ group m 3 \<and> contains c (group m 0)"
    unfolding step5_def main_group_re_def by (rule append_to_list_match) simp_all
  show "re_search targets_list_re c = Some m \<Longrightarrow>
     step9 k c = replace c (group m 0) (group m 1 @ group m 2 @ targets_item k @ group m 3)
     \<and> group m 0 = group m 1 @ group m 2 @ group m 3 \<and> contains c (group m 0)"
    unfolding step9_def targets_list_re_def by (rule append_to_list_match) simp_all
  show "re_search target_attrs_re c = Some m \<Longrightarrow>
     step10 k c = replace c (group m 0) (group m 1 @ group m 2 @ target_attrs_item k @ group m 3)
     \<and> group m 0 = group m 1 @ group m 2 @ group m 3 \<and> contains c (group m 0)"
    unfolding step10_def target_attrs_re_def by (rule append_to_list_match) simp_all
qed

lemma patch_composition:
  "patch k c =
     step14 k (step13 k (step12 k (step11 k (step10 k (step9 k (step8 k (step7 k
       (step6 k (step5 k (step4 k (step3 k (step2 k (step1 k c)))))))))))))"
  by (simp add: patch_def steps_def)

section \<open>The example keys\<close>

lemma generate_keys_example: "generate_keys uuid4_distinct = example_keys"
  by code_simp

section \<open>The append-to-list steps\<close>

text \<open>
  C4 (amended): an append-to-list step (steps 4, 5, 9 and 10) changes the content exactly
  when its anchor matches somewhere. With no match, in particular when the literal head of
  the anchor is absent, the step returns the content unchanged and raises nothing: it is
  skipped. When \<open>re.search\<close> finds a match \<open>m\<close>, the step is
  \<open>content.replace(m.group(0), m.group(1) + m.group(2) + item + m.group(3))\<close>, where
  \<open>m.group(0)\<close> is the three groups in sequence and occurs in the content: every occurrence
  of the matched text is rewritten, whatever the number of regions that match the anchor,
  and no error is raised.
\<close>

theorem append_to_list_zero_matches:
  "(re_search products_group_re c = None \<longleftrightarrow> step4 k c = c)
   \<and> (re_search main_group_re c = None \<longleftrightarrow> step5 k c = c)
   \<and> (re_search targets_list_re c = None \<longleftrightarrow> step9 k c = c)
   \<and> (re_search target_attrs_re c = None \<longleftrightarrow> step10 k c = c)
   \<and> (\<not> contains c_a ''D76E4B1F2F2331380090999D /* Products */ = {'' \<longrightarrow> step4 k c_a = c_a)
   \<and> (\<not> contains c_b ''D76E4B152F2331380090999D = {'' \<longrightarrow> step5 k c_b = c_b)
   \<and> (\<not> contains c_c ''targets = ('' \<longrightarrow> step9 k c_c = c_c)
   \<and> (\<not> contains c_d ''TargetAttributes = {'' \<longrightarrow> step10 k c_d = c_d)
   \<and> (re_search products_group_re c_e = Some m_e \<longrightarrow>
        step4 k c_e
          = replace c_e (group m_e 0) (group m_e 1 @ group m_e 2 @ products_child k @ group m_e 3)
        \<and> group m_e 0 = group m_e 1 @ group m_e 2 @ group m_e 3 \<and> contains c_e (group m_e 0))
   \<and> (re_search main_group_re c_f = Some m_f \<longrightarrow>
        step5 k c_f
          = replace c_f (group m_f 0) (group m_f 1 @ group m_f 2 @ main_group_child k @ group m_f 3)
        \<and> group m_f 0 = group m_f 1 @ group m_f 2 @ group m_f 3 \<and> contains c_f (group m_f 0))
   \<and> (re_search targets_list_re c_g = Some m_g \<longrightarrow>
        step9 k c_g
          = replace c_g (group m_g 0) (group m_g 1 @ group m_g 2 @ targets_item k @ group m_g 3)
        \<and> group m_g 0 = group m_g 1 @ group m_g 2 @ group m_g 3 \<and> contains c_g (group m_g 0))
   \<and> (re_search target_attrs_re c_h = Some m_h \<longrightarrow>
        step10 k c_h
          = replace c_h (group m_h 0) (group m_h 1 @ group m_h 2 @ target_attrs_item k @ group m_h 3)
        \<and> group m_h 0 = group m_h 1 @ group m_h 2 @ group m_h 3 \<and> contains c_h (group m_h 0))"
proof -
  have a: "\<not> contains c_a ''D76E4B1F2F2331380090999D /* Products */ = {'' \<longrightarrow> step4 k c_a = c_a"
    by (rule impI) (rule append_steps_head(1))
  have b: "\<not> contains c_b ''D76E4B152F2331380090999D = {'' \<longrightarrow> step5 k c_b = c_b"
    by (rule impI) (rule append_steps_head(2))
  have c: "\<not> contains c_c ''targets = ('' \<longrightarrow> step9 k c_c = c_c"
    by (rule impI) (rule append_steps_head(3))
  have d: "\<not> contains c_d ''TargetAttributes = {'' \<longrightarrow> step10 k c_d = c_d"
    by (rule impI) (rule append_steps_head(4))
  have e: "re_search products_group_re c_e = Some m_e \<longrightarrow>
        step4 k c_e
          = replace c_e (group m_e 0) (group m_e 1 @ group m_e 2 @ products_child k @ group m_e 3)
        \<and> group m_e 0 = group m_e 1 @ group m_e 2 @ group m_e 3 \<and> contains c_e (group m_e 0)"
    by (rule impI) (rule append_steps_match(1))
  have f: "re_search main_group_re c_f = Some m_f \<longrightarrow>
        step5 k c_f
          = replace c_f (group m_f 0) (group m_f 1 @ group m_f 2 @ main_group_child k @ group m_f 3)
        \<and> group m_f 0 = group m_f 1 @ group m_f 2 @ group m_f 3 \<and> contains c_f (group m_f 0)"
    by (rule impI) (rule append_steps_match(2))
  have g: "re_search targets_list_re c_g = Some m_g \<longrightarrow>
        step9 k c_g
          = replace c_g (group m_g 0) (group m_g 1 @ group m_g 2 @ targets_item k @ group m_g 3)
        \<and> group m_g 0 = group m_g 1 @ group m_g 2 @ group m_g 3 \<and> contains c_g (group m_g 0)"
    by (rule impI) (rule append_steps_match(3))
  have h: "re_search target_attrs_re c_h = Some m_h \<longrightarrow>
        step10 k c_h
          = replace c_h (group m_h 0) (group m_h 1 @ group m_h 2 @ target_attrs_item k @ group m_h 3)
        \<and> group m_h 0 = group m_h 1 @ group m_h 2 @ group m_h 3 \<and> contains c_h (group m_h 0)"
    by (rule impI) (rule append_steps_match(4))
  show ?thesis
    by (intro conjI) (rule append_steps_iff a b c d e f g h)+
qed

lemma doc_header_no_heads:
  "\<not> contains doc_header ''D76E4B1F2F2331380090999D /* Products */ = {''"
  "\<not> contains doc_header ''D76E4B152F2331380090999D = {''"
  "\<not> contains doc_header ''targets = (''"
  "\<not> contains doc_header ''TargetAttributes = {''"
  by code_simp+

lemma list_examples:
  "re_search products_group_re doc_products =
     Some [''D76E4B1F2F2331380090999D /* Products */ = {children = (A,);'',
           ''D76E4B1F2F2331380090999D /* Products */ = {children = ('', ''A,'', '');'']"
  "re_search main_group_re doc_main_group =
     Some [''D76E4B152F2331380090999D = {children = (A,);'',
           ''D76E4B152F2331380090999D = {children = ('', ''A,'', '');'']"
  "re_search targets_list_re doc_same_lists =
     Some [''targets = (A,);'', ''targets = ('', ''A,'', '');'']"
  "re_search target_attrs_re doc_attrs =
     Some [''TargetAttributes = {A = {};'', ''TargetAttributes = {'', ''A = {'', ''};'']"
  by code_simp+

lemma replace_examples:
  "replace doc_products ''D76E4B1F2F2331380090999D /* Products */ = {children = (A,);''
     (''D76E4B1F2F2331380090999D /* Products */ = {children = ('' @ ''A,'' @ item @ '');'')
   = ''D76E4B1F2F2331380090999D /* Products */ = {children = (A,'' @ item @ '');};''"
  "replace doc_main_group ''D76E4B152F2331380090999D = {children = (A,);''
     (''D76E4B152F2331380090999D = {children = ('' @ ''A,'' @ item @ '');'')
   = ''D76E4B152F2331380090999D = {children = (A,'' @ item @ '');};''"
  "replace doc_same_lists ''targets = (A,);'' (''targets = ('' @ ''A,'' @ item @ '');'')
   = ''targets = (A,'' @ item @ ''); targets = (A,'' @ item @ '');''"
  "replace doc_attrs ''TargetAttributes = {A = {};'' (''TargetAttributes = {'' @ ''A = {'' @ item @ ''};'')
   = ''TargetAttributes = {A = {'' @ item @ ''};};''"
  by (simp_all add: replace_def doc_products_def doc_main_group_def doc_same_lists_def
      doc_attrs_def)

theorem append_to_list_zero_matches_witness:
  "\<not> contains doc_header ''D76E4B1F2F2331380090999D /* Products */ = {''
   \<and> \<not> contains doc_header ''D76E4B152F2331380090999D = {''
   \<and> \<not> contains doc_header ''targets = (''
   \<and> \<not> contains doc_header ''TargetAttributes = {''
   \<and> step4 example_keys doc_header = doc_header
   \<and> step5 example_keys doc_header = doc_header
   \<and> step9 example_keys doc_header = doc_header
   \<and> step10 example_keys doc_header = doc_header
   \<and> re_search products_group_re doc_products =
       Some [''D76E4B1F2F2331380090999D /* Products */ = {children = (A,);'',
             ''D76E4B1F2F2331380090999D /* Products */ = {children = ('', ''A,'', '');'']
   \<and> step4 example_keys doc_products =
       ''D76E4B1F2F2331380090999D /* Products */ = {children = (A,''
         @ products_child example_keys @ '');};''
   \<and> re_search main_group_re doc_main_group =
       Some [''D76E4B152F2331380090999D = {children = (A,);'',
             ''D76E4B152F2331380090999D = {children = ('', ''A,'', '');'']
   \<and> step5 example_keys doc_main_group =
       ''D76E4B152F2331380090999D = {children = (A,'' @ main_group_child example_keys @ '');};''
   \<and> re_search targets_list_re doc_same_lists =
       Some [''targets = (A,);'', ''targets = ('', ''A,'', '');'']
   \<and> step9 example_keys doc_same_lists =
       ''targets = (A,'' @ targets_item example_keys @ ''); targets = (A,''
         @ targets_item example_keys @ '');''
   \<and> re_search target_attrs_re doc_attrs =
       Some [''TargetAttributes = {A = {};'', ''TargetAttributes = {'', ''A = {'', ''};'']
   \<and> step10 example_keys doc_attrs =
       ''TargetAttributes = {A = {'' @ target_attrs_item example_keys @ ''};};''"
  using append_to_list_zero_matches [where k = example_keys and c = doc_header
      and c_a = doc_header and c_b = doc_header and c_c = doc_header and c_d = doc_header
      and c_e = doc_products
      and m_e = "[''D76E4B1F2F2331380090999D /* Products */ = {children = (A,);'',
             ''D76E4B1F2F2331380090999D /* Products */ = {children = ('', ''A,'', '');'']"
      and c_f = doc_main_group
      and m_f = "[''D76E4B152F2331380090999D = {children = (A,);'',
             ''D76E4B152F2331380090999D = {children = ('', ''A,'', '');'']"
      and c_g = doc_same_lists
      and m_g = "[''targets = (A,);'', ''targets = ('', ''A,'', '');'']"
      and c_h = doc_attrs
      and m_h = "[''TargetAttributes = {A = {};'', ''TargetAttributes = {'', ''A = {'', ''};'']"]
    doc_header_no_heads list_examples
    replace_examples(1)[of "products_child example_keys"]
    replace_examples(2)[of "main_group_child example_keys"]
    replace_examples(3)[of "targets_item example_keys"]
    replace_examples(4)[of "target_attrs_item example_keys"]
  by (simp add: numeral_3_eq_3 del: replace_ne.simps)

lemma doc_two_lists_fresh:
  "\<not> contains doc_two_lists ''DevCamTests''" "CHR 0x0D \<notin> set doc_two_lists"
  by code_simp+

lemma doc_two_lists_step9: "step9 example_keys doc_two_lists \<noteq> doc_two_lists"
  by code_simp

theorem append_to_list_two_regions_counterexample:
  "rmatch targets_list_re doc_two_lists \<noteq> []
   \<and> rmatch targets_list_re (drop 16 doc_two_lists) \<noteq> []
   \<and> step9 (generate_keys uuid4_distinct) doc_two_lists \<noteq> doc_two_lists
   \<and> status (add_test_target_complete posix_latin1 uuid4_distinct
               [project_path_complete \<mapsto> doc_two_lists])
       = Exited 0"
proof -
  have "rmatch targets_list_re doc_two_lists \<noteq> []"
    and "rmatch targets_list_re (drop 16 doc_two_lists) \<noteq> []"
    by code_simp+
  moreover have "status (add_test_target_complete posix_latin1 uuid4_distinct
      [project_path_complete \<mapsto> doc_two_lists]) = Exited 0"
    using run_latin1[OF doc_two_lists_fresh(2,1), of uuid4_distinct] by simp
  ultimately show ?thesis using doc_two_lists_step9 by (simp add: generate_keys_example)
qed

section \<open>The create-section steps\<close>

lemma create_section_present:
  "contains c begin_marker \<Longrightarrow> create_section begin_marker block next_marker c = c"
  by (simp add: create_section_def)

lemma create_section_once:
  assumes "\<not> contains c begin_marker" and "occurs_once_at pre next_marker post c"
    and "next_marker \<noteq> []"
  shows "create_section begin_marker block next_marker c = pre @ block @ next_marker @ post"
  using assms replace_once[of next_marker pre post "block @ next_marker"]
  by (simp add: create_section_def occurs_once_at_def)

text \<open>
  C7 (amended): a create-section step (steps 7 and 8) leaves the content unchanged when
  the section already exists, and also when the section does not exist but the begin
  marker of the neighbouring section, in front of which the new block is put, is absent.
  When the section does not exist and that marker occurs exactly once, the new
  begin/end block is put immediately in front of it and nothing else changes.
\<close>

theorem create_section_cases:
  "(contains c1 ''/* Begin PBXContainerItemProxy section */'' \<longrightarrow> step7 k c1 = c1)
   \<and> (\<not> contains c2 ''/* Begin PBXFileReference section */'' \<longrightarrow> step7 k c2 = c2)
   \<and> (\<not> contains c3 ''/* Begin PBXContainerItemProxy section */''
        \<and> occurs_once_at pre3 ''/* Begin PBXFileReference section */'' post3 c3 \<longrightarrow>
        step7 k c3 = pre3 @ container_proxy k @ ''/* Begin PBXFileReference section */'' @ post3)
   \<and> (contains c4 ''/* Begin PBXTargetDependency section */'' \<longrightarrow> step8 k c4 = c4)
   \<and> (\<not> contains c5 ''/* Begin PBXFrameworksBuildPhase section */'' \<longrightarrow> step8 k c5 = c5)
   \<and> (\<not> contains c6 ''/* Begin PBXTargetDependency section */''
        \<and> occurs_once_at pre6 ''/* Begin PBXFrameworksBuildPhase section */'' post6 c6 \<longrightarrow>
        step8 k c6 = pre6 @ target_dependency k @ ''/* Begin PBXFrameworksBuildPhase section */'' @ post6)"
proof -
  have a: "step7 k c = c" if "contains c ''/* Begin PBXContainerItemProxy section */''" for c
    unfolding step7_def using that by (rule create_section_present)
  have b: "step7 k c = c" if "\<not> contains c ''/* Begin PBXFileReference section */''" for c
    unfolding step7_def using that by (rule create_section_skip)
  have c: "step7 k c = pre @ container_proxy k @ ''/* Begin PBXFileReference section */'' @ post"
    if "\<not> contains c ''/* Begin PBXContainerItemProxy section */''"
      and "occurs_once_at pre ''/* Begin PBXFileReference section */'' post c" for c pre post
    unfolding step7_def using that by (rule create_section_once) simp
  have d: "step8 k c = c" if "contains c ''/* Begin PBXTargetDependency section */''" for c
    unfolding step8_def using that by (rule create_section_present)
  have e: "step8 k c = c" if "\<not> contains c ''/* Begin PBXFrameworksBuildPhase section */''" for c
    unfolding step8_def using that by (rule create_section_skip)
  have f: "step8 k c = pre @ target_dependency k @ ''/* Begin PBXFrameworksBuildPhase section */'' @ post"
    if "\<not> contains c ''/* Begin PBXTargetDependency section */''"
      and "occurs_once_at pre ''/* Begin PBXFrameworksBuildPhase section */'' post c" for c pre post
    unfolding step8_def using that by (rule create_section_once) simp
  show ?thesis
    by (intro conjI impI; (elim conjE)?) (rule a b c d e f; assumption)+
qed

lemma create_section_examples:
  "contains doc_proxy_present ''/* Begin PBXContainerItemProxy section */''"
  "\<not> contains doc_header ''/* Begin PBXFileReference section */''"
  "\<not> contains doc_file_ref_section ''/* Begin PBXContainerItemProxy section */''"
  "occurs_once_at ''// !$*UTF8*$!\<newline>'' ''/* Begin PBXFileReference section */''
     ''\<newline>/* End PBXFileReference section */\<newline>'' doc_file_ref_section"
  "contains doc_dependency_present ''/* Begin PBXTargetDependency section */''"
  "\<not> contains doc_header ''/* Begin PBXFrameworksBuildPhase section */''"
  "\<not> contains doc_frameworks_section ''/* Begin PBXTargetDependency section */''"
  "occurs_once_at ''// !$*UTF8*$!\<newline>'' ''/* Begin PBXFrameworksBuildPhase section */''
     ''\<newline>/* End PBXFrameworksBuildPhase section */\<newline>'' doc_frameworks_section"
  by code_simp+

theorem create_section_cases_witness:
  "contains doc_proxy_present ''/* Begin PBXContainerItemProxy section */''
   \<and> step7 (generate_keys uuid4_distinct) doc_proxy_present = doc_proxy_present
   \<and> \<not> contains doc_header ''/* Begin PBXFileReference section */''
   \<and> step7 (generate_keys uuid4_distinct) doc_header = doc_header
   \<and> \<not> contains doc_file_ref_section ''/* Begin PBXContainerItemProxy section */''
   \<and> occurs_once_at ''// !$*UTF8*$!\<newline>'' ''/* Begin PBXFileReference section */''
         ''\<newline>/* End PBXFileReference section */\<newline>'' doc_file_ref_section
   \<and> step7 (generate_keys uuid4_distinct) doc_file_ref_section =
         ''// !$*UTF8*$!\<newline>'' @ container_proxy (generate_keys uuid4_distinct) @
         ''/* Begin PBXFileReference section */'' @
         ''\<newline>/* End PBXFileReference section */\<newline>''
   \<and> contains doc_dependency_present ''/* Begin PBXTargetDependency section */''
   \<and> step8 (generate_keys uuid4_distinct) doc_dependency_present = doc_dependency_present
   \<and> \<not> contains doc_header ''/* Begin PBXFrameworksBuildPhase section */''
   \<and> step8 (generate_keys uuid4_distinct) doc_header = doc_header
   \<and> \<not> contains doc_frameworks_section ''/* Begin PBXTargetDependency section */''
   \<and> occurs_once_at ''// !$*UTF8*$!\<newline>'' ''/* Begin PBXFrameworksBuildPhase section */''
         ''\<newline>/* End PBXFrameworksBuildPhase section */\<newline>'' doc_frameworks_section
   \<and> step8 (generate_keys uuid4_distinct) doc_frameworks_section =
         ''// !$*UTF8*$!\<newline>'' @ target_dependency (generate_keys uuid4_distinct) @
         ''/* Begin PBXFrameworksBuildPhase section */'' @
         ''\<newline>/* End PBXFrameworksBuildPhase section */\<newline>''"
  using create_section_cases [of doc_proxy_present "generate_keys uuid4_distinct" doc_header
      doc_file_ref_section "''// !$*UTF8*$!\<newline>''"
      "''\<newline>/* End PBXFileReference section */\<newline>''"
      doc_dependency_present doc_header doc_frameworks_section "''// !$*UTF8*$!\<newline>''"
      "''\<newline>/* End PBXFrameworksBuildPhase section */\<newline>''"]
    create_section_examples
  by (simp only: generate_keys_example simp_thms)

theorem create_section_counterexample:
  "\<not> contains doc_fs_sync ''/* Begin PBXContainerItemProxy section */''
   \<and> step7 (generate_keys uuid4_distinct) doc_fs_sync = doc_fs_sync
   \<and> \<not> contains (step7 (generate_keys uuid4_distinct) doc_fs_sync)
         ''/* Begin PBXContainerItemProxy section */''"
  unfolding generate_keys_example by code_simp

section \<open>Exit codes and messages\<close>

text \<open>
  C6 (amended): add_test_target_complete.py exits with code 0 whenever it can read and
  write the project file: after the already-exists message when \<open>DevCamTests\<close> is present,
  after the success message otherwise, whether or not its anchors were found (a missing
  anchor is skipped and is no failure). add_test_target.py exits with code 0 when
  \<open>DevCamTests\<close> is present, with code 1 after a message when the main-target pattern or
  the insertion point is not found, and with code 0 after the manual-configuration message
  otherwise. Either script ends with an uncaught exception, that is with exit code 1 and
  no further line on the standard output, when the project file is missing, cannot be
  opened for reading or cannot be decoded, and when the file it writes (the backup copy, the
  project file) cannot be opened for writing or the patched text cannot be encoded.
\<close>

theorem exit_codes:
  "status (add_test_target_complete env uuid4 fs) =
     (case read_text env fs project_path_complete of
        Inl e \<Rightarrow> Uncaught e
      | Inr content \<Rightarrow>
          if contains content ''DevCamTests'' then Exited 0
          else (case write_error env project_path_complete of
                  Some e \<Rightarrow> Uncaught e
                | None \<Rightarrow>
                    if encode env (write_newlines (linesep env)
                                     (patch (generate_keys uuid4) content)) = None
                    then Uncaught UnicodeEncodeError
                    else Exited 0))
   \<and> stdout (add_test_target_complete env uuid4 fs) =
     (case read_text env fs project_path_complete of
        Inl e \<Rightarrow> []
      | Inr content \<Rightarrow>
          if contains content ''DevCamTests'' then [''Test target already exists!'']
          else (case write_error env project_path_complete of
                  Some e \<Rightarrow> []
                | None \<Rightarrow>
                    if encode env (write_newlines (linesep env)
                                     (patch (generate_keys uuid4) content)) = None
                    then []
                    else [''Successfully added DevCamTests target to Xcode project!'']))
   \<and> status (add_test_target env uuid4 fs) =
     (case read_text env fs pbxproj_path of
        Inl e \<Rightarrow> Uncaught e
      | Inr content \<Rightarrow>
          if contains content ''DevCamTests'' then Exited 0
          else (case write_error env (pbxproj_path @ ''.backup'') of
                  Some e \<Rightarrow> Uncaught e
                | None \<Rightarrow>
                    (case re_search main_target_re content of
                       None \<Rightarrow> Exited 1
                     | Some m \<Rightarrow>
                         if find_str content (group m 1 @ '' /* DevCam */,'') = -1
                         then Exited 1
                         else Exited 0)))
   \<and> stdout (add_test_target env uuid4 fs) =
     (case read_text env fs pbxproj_path of
        Inl e \<Rightarrow> []
      | Inr content \<Rightarrow>
          if contains content ''DevCamTests'' then [''Test target already exists'']
          else (case write_error env (pbxproj_path @ ''.backup'') of
                  Some e \<Rightarrow> [''Adding test target to Xcode project...'']
                | None \<Rightarrow>
                    (case re_search main_target_re content of
                       None \<Rightarrow>
                         [''Adding test target to Xcode project...'',
                          ''Could not find main target'']
                     | Some m \<Rightarrow>
                         if find_str content (group m 1 @ '' /* DevCam */,'') = -1
                         then [''Adding test target to Xcode project...'',
                               ''Could not find insertion point'']
                         else [''Adding test target to Xcode project...'',
                               ''Manual configuration required. Please use Xcode GUI to add test target.''])))
   \<and> exit_code (Exited 0) = 0 \<and> exit_code (Exited 1) = 1 \<and> exit_code (Uncaught e) = 1"
proof -
  have a: "status (add_test_target_complete env uuid4 fs) =
     (case read_text env fs project_path_complete of
        Inl e \<Rightarrow> Uncaught e
      | Inr content \<Rightarrow>
          if contains content ''DevCamTests'' then Exited 0
          else (case write_error env project_path_complete of
                  Some e \<Rightarrow> Uncaught e
                | None \<Rightarrow>
                    if encode env (write_newlines (linesep env)
                                     (patch (generate_keys uuid4) content)) = None
                    then Uncaught UnicodeEncodeError
                    else Exited 0))"
    by (auto simp: add_test_target_complete_def write_text_def Let_def
        split: sum.splits option.splits)
  have b: "stdout (add_test_target_complete env uuid4 fs) =
     (case read_text env fs project_path_complete of
        Inl e \<Rightarrow> []
      | Inr content \<Rightarrow>
          if contains content ''DevCamTests'' then [''Test target already exists!'']
          else (case write_error env project_path_complete of
                  Some e \<Rightarrow> []
                | None \<Rightarrow>
                    if encode env (write_newlines (linesep env)
                                     (patch (generate_keys uuid4) content)) = None
                    then []
                    else [''Successfully added DevCamTests target to Xcode project!'']))"
    by (auto simp: add_test_target_complete_def write_text_def Let_def
        split: sum.splits option.splits)
  have c: "status (add_test_target env uuid4 fs) =
     (case read_text env fs pbxproj_path of
        Inl e \<Rightarrow> Uncaught e
      | Inr content \<Rightarrow>
          if contains content ''DevCamTests'' then Exited 0
          else (case write_error env (pbxproj_path @ ''.backup'') of
                  Some e \<Rightarrow> Uncaught e
                | None \<Rightarrow>
                    (case re_search main_target_re content of
                       None \<Rightarrow> Exited 1
                     | Some m \<Rightarrow>
                         if find_str content (group m 1 @ '' /* DevCam */,'') = -1
                         then Exited 1
                         else Exited 0)))"
    by (auto simp: add_test_target_def copy_file_def Let_def split: sum.splits option.splits)
  have d: "stdout (add_test_target env uuid4 fs) =
     (case read_text env fs pbxproj_path of
        Inl e \<Rightarrow> []
      | Inr content \<Rightarrow>
          if contains content ''DevCamTests'' then [''Test target already exists'']
          else (case write_error env (pbxproj_path @ ''.backup'') of
                  Some e \<Rightarrow> [''Adding test target to Xcode project...'']
                | None \<Rightarrow>
                    (case re_search main_target_re content of
                       None \<Rightarrow>
                         [''Adding test target to Xcode project...'',
                          ''Could not find main target'']
                     | Some m \<Rightarrow>
                         if find_str content (group m 1 @ '' /* DevCam */,'') = -1
                         then [''Adding test target to Xcode project...'',
                               ''Could not find insertion point'']
                         else [''Adding test target to Xcode project...'',
                               ''Manual configuration required. Please use Xcode GUI to add test target.''])))"
    by (auto simp: add_test_target_def copy_file_def Let_def split: sum.splits option.splits)
  have e: "exit_code (Exited 0) = 0 \<and> exit_code (Exited 1) = 1 \<and> exit_code (Uncaught e) = 1"
    by simp
  show ?thesis by (intro conjI a b c d e[THEN conjunct1] e[THEN conjunct2, THEN conjunct1]
        e[THEN conjunct2, THEN conjunct2])
qed

lemma script1_examples:
  "re_search main_target_re doc_header = None"
  "re_search main_target_re doc_target_no_comma
     = Some [''D76E4B1D2F2331380090999D /* DevCam */'', ''D76E4B1D2F2331380090999D'']"
  "find_str doc_target_no_comma (''D76E4B1D2F2331380090999D'' @ '' /* DevCam */,'') = -1"
  "re_search main_target_re doc_target_listed
     = Some [''D76E4B1D2F2331380090999D /* DevCam */'', ''D76E4B1D2F2331380090999D'']"
  "find_str doc_target_listed (''D76E4B1D2F2331380090999D'' @ '' /* DevCam */,'') = 4"
  "\<not> contains doc_target_no_comma ''DevCamTests''"
  "\<not> contains doc_target_listed ''DevCamTests''"
  "CHR 0x0D \<notin> set doc_target_no_comma"
  "CHR 0x0D \<notin> set doc_target_listed"
  by code_simp+

lemma read_examples:
  "read_text posix_latin1 [project_path_complete \<mapsto> doc_target_no_comma] project_path_complete
     = Inr doc_target_no_comma"
  "read_text posix_latin1 [project_path_complete \<mapsto> doc_target_listed] project_path_complete
     = Inr doc_target_listed"
  "read_text (read_only posix_latin1) [project_path_complete \<mapsto> doc_header]
     project_path_complete = Inr doc_header"
  "read_text posix_latin1 Map.empty project_path_complete = Inl FileNotFoundError"
  "read_text posix_ascii [project_path_complete \<mapsto> doc_not_ascii] project_path_complete
     = Inl UnicodeDecodeError"
proof -
  show "read_text posix_latin1 [project_path_complete \<mapsto> doc_target_no_comma]
      project_path_complete = Inr doc_target_no_comma"
    using script1_examples(8) by (rule read_text_latin1)
  show "read_text posix_latin1 [project_path_complete \<mapsto> doc_target_listed]
      project_path_complete = Inr doc_target_listed"
    using script1_examples(9) by (rule read_text_latin1)
  show "read_text (read_only posix_latin1) [project_path_complete \<mapsto> doc_header]
      project_path_complete = Inr doc_header"
    using doc_header_no_cr
    by (simp add: read_text_def read_only_def posix_latin1_def latin1_codec_def
        universal_newlines_id)
  show "read_text posix_latin1 Map.empty project_path_complete = Inl FileNotFoundError"
    by (simp add: read_text_def)
  have "ascii_codec doc_not_ascii = None" by code_simp
  then show "read_text posix_ascii [project_path_complete \<mapsto> doc_not_ascii]
      project_path_complete = Inl UnicodeDecodeError"
    by (simp add: read_text_def posix_ascii_def)
qed

theorem exit_codes_witness:
  "status (add_test_target_complete posix_latin1 uuid4_distinct
             [project_path_complete \<mapsto> doc_header]) = Exited 0
   \<and> stdout (add_test_target_complete posix_latin1 uuid4_distinct
               [project_path_complete \<mapsto> doc_header])
       = [''Successfully added DevCamTests target to Xcode project!'']
   \<and> status (add_test_target posix_latin1 uuid4_distinct [project_path_complete \<mapsto> doc_header])
       = Exited 1
   \<and> stdout (add_test_target posix_latin1 uuid4_distinct [project_path_complete \<mapsto> doc_header])
       = [''Adding test target to Xcode project...'', ''Could not find main target'']
   \<and> status (add_test_target posix_latin1 uuid4_distinct
               [project_path_complete \<mapsto> doc_target_no_comma]) = Exited 1
   \<and> stdout (add_test_target posix_latin1 uuid4_distinct
               [project_path_complete \<mapsto> doc_target_no_comma])
       = [''Adding test target to Xcode project...'', ''Could not find insertion point'']
   \<and> status (add_test_target posix_latin1 uuid4_distinct
               [project_path_complete \<mapsto> doc_target_listed]) = Exited 0
   \<and> status (add_test_target_complete posix_latin1 uuid4_distinct Map.empty)
       = Uncaught FileNotFoundError
   \<and> stdout (add_test_target_complete posix_latin1 uuid4_distinct Map.empty) = []
   \<and> status (add_test_target posix_latin1 uuid4_distinct Map.empty) = Uncaught FileNotFoundError
   \<and> status (add_test_target_complete posix_ascii uuid4_distinct
               [project_path_complete \<mapsto> doc_not_ascii]) = Uncaught UnicodeDecodeError
   \<and> stdout (add_test_target_complete posix_ascii uuid4_distinct
               [project_path_complete \<mapsto> doc_not_ascii]) = []
   \<and> status (add_test_target posix_ascii uuid4_distinct
               [project_path_complete \<mapsto> doc_not_ascii]) = Uncaught UnicodeDecodeError
   \<and> status (add_test_target_complete (read_only posix_latin1) uuid4_distinct
               [project_path_complete \<mapsto> doc_header]) = Uncaught PermissionError
   \<and> stdout (add_test_target_complete (read_only posix_latin1) uuid4_distinct
               [project_path_complete \<mapsto> doc_header]) = []
   \<and> status (add_test_target (read_only posix_latin1) uuid4_distinct
               [project_path_complete \<mapsto> doc_header]) = Uncaught PermissionError
   \<and> exit_code (Uncaught PermissionError) = 1"
proof -
  have p: "patch (generate_keys uuid4_distinct) doc_header = doc_header"
    using doc_header_no_anchor by (rule patch_no_anchor)
  have ro: "write_error (read_only posix_latin1) path = Some PermissionError" for path
    by (simp add: read_only_def)
  show ?thesis
    using exit_codes [of posix_latin1 uuid4_distinct "[project_path_complete \<mapsto> doc_header]"
        PermissionError]
      exit_codes [of posix_latin1 uuid4_distinct "[project_path_complete \<mapsto> doc_target_no_comma]"
        PermissionError]
      exit_codes [of posix_latin1 uuid4_distinct "[project_path_complete \<mapsto> doc_target_listed]"
        PermissionError]
      exit_codes [of posix_latin1 uuid4_distinct Map.empty PermissionError]
      exit_codes [of posix_ascii uuid4_distinct "[project_path_complete \<mapsto> doc_not_ascii]"
        PermissionError]
      exit_codes [of "read_only posix_latin1" uuid4_distinct
        "[project_path_complete \<mapsto> doc_header]" PermissionError]
      script1_examples doc_header_fresh doc_header_read read_examples p ro
      writable_latin1 encode_latin1
    by (simp add: paths_agree)
qed

theorem exit_code_counterexample:
  "no_anchor_matches doc_header
   \<and> exit_code (status (add_test_target_complete posix_latin1 uuid4_distinct
                          [project_path_complete \<mapsto> doc_header])) = 0
   \<and> stdout (add_test_target_complete posix_latin1 uuid4_distinct
               [project_path_complete \<mapsto> doc_header])
       = [''Successfully added DevCamTests target to Xcode project!'']"
  using run_latin1 [OF doc_header_no_cr doc_header_fresh, of uuid4_distinct]
    doc_header_no_anchor
  by simp

section \<open>Steps without their anchor\<close>

text \<open>
  C2 (amended): the fourteen steps are applied one after the other, each to the text left
  by the step before, whatever the earlier steps found. Each step changes its input exactly
  when its anchor is found there: a step whose anchor is absent returns its input unchanged
  and raises nothing. When \<open>DevCamTests\<close> is absent from the text read and the project file
  can be opened for writing, the file is written exactly once, after the last step, with
  the encoding of the text left by the fourteen steps (it is left empty when that text
  cannot be encoded), and no other file changes. There is no rollback: the steps that
  found their anchor are in the file on disk, also when other steps did not find theirs.
\<close>

theorem absent_anchor_is_skipped:
  assumes "read_text env fs project_path_complete = Inr content"
    and "\<not> contains content ''DevCamTests''"
    and "write_error env project_path_complete = None"
  shows "patch k c =
      step14 k (step13 k (step12 k (step11 k (step10 k (step9 k (step8 k (step7 k
        (step6 k (step5 k (step4 k (step3 k (step2 k (step1 k c)))))))))))))
    \<and> (step1 k c = c \<longleftrightarrow> re_search file_ref_re c = None)
    \<and> (step2 k c = c
        \<longleftrightarrow> \<not> contains c ''/* End PBXFileSystemSynchronizedRootGroup section */'')
    \<and> (step3 k c = c \<longleftrightarrow> \<not> contains c ''/* End PBXFrameworksBuildPhase section */'')
    \<and> (step4 k c = c \<longleftrightarrow> re_search products_group_re c = None)
    \<and> (step5 k c = c \<longleftrightarrow> re_search main_group_re c = None)
    \<and> (step6 k c = c \<longleftrightarrow> \<not> contains c ''/* End PBXNativeTarget section */'')
    \<and> (step7 k c = c \<longleftrightarrow> contains c ''/* Begin PBXContainerItemProxy section */''
                          \<or> \<not> contains c ''/* Begin PBXFileReference section */'')
    \<and> (step8 k c = c \<longleftrightarrow> contains c ''/* Begin PBXTargetDependency section */''
                          \<or> \<not> contains c ''/* Begin PBXFrameworksBuildPhase section */'')
    \<and> (step9 k c = c \<longleftrightarrow> re_search targets_list_re c = None)
    \<and> (step10 k c = c \<longleftrightarrow> re_search target_attrs_re c = None)
    \<and> (step11 k c = c \<longleftrightarrow> \<not> contains c ''/* End PBXResourcesBuildPhase section */'')
    \<and> (step12 k c = c \<longleftrightarrow> \<not> contains c ''/* End PBXSourcesBuildPhase section */'')
    \<and> (step13 k c = c \<longleftrightarrow> \<not> contains c ''/* End XCBuildConfiguration section */'')
    \<and> (step14 k c = c \<longleftrightarrow> \<not> contains c ''/* End XCConfigurationList section */'')
    \<and> written (add_test_target_complete env uuids fs) = [project_path_complete]
    \<and> files (add_test_target_complete env uuids fs) =
        fs(project_path_complete \<mapsto>
             (case encode env (write_newlines (linesep env)
                                (patch (generate_keys uuids) content)) of
                None \<Rightarrow> [] | Some bytes \<Rightarrow> bytes))"
proof -
  have w: "written (add_test_target_complete env uuids fs) = [project_path_complete]"
    using assms by (simp add: add_test_target_complete_def write_text_def split: option.splits)
  have f: "files (add_test_target_complete env uuids fs) =
        fs(project_path_complete \<mapsto>
             (case encode env (write_newlines (linesep env)
                                (patch (generate_keys uuids) content)) of
                None \<Rightarrow> [] | Some bytes \<Rightarrow> bytes))"
    using assms by (simp add: add_test_target_complete_def write_text_def split: option.splits)
  have s4: "step4 k c = c \<longleftrightarrow> re_search products_group_re c = None"
    and s5: "step5 k c = c \<longleftrightarrow> re_search main_group_re c = None"
    and s9: "step9 k c = c \<longleftrightarrow> re_search targets_list_re c = None"
    and s10: "step10 k c = c \<longleftrightarrow> re_search target_attrs_re c = None"
    by (rule append_steps_iff[symmetric])+
  show ?thesis
    by (intro conjI)
      (rule patch_composition step1_iff insert_steps_iff create_steps_iff s4 s5 s9 s10 w f)+
qed

lemma doc_fs_sync_examples:
  "\<not> contains doc_fs_sync ''DevCamTests''"
  "re_search file_ref_re doc_fs_sync = None"
  "contains doc_fs_sync ''/* End PBXFileSystemSynchronizedRootGroup section */''"
  "CHR 0x0D \<notin> set doc_fs_sync"
  by code_simp+

lemma doc_fs_sync_read:
  "read_text posix_latin1 [project_path_complete \<mapsto> doc_fs_sync] project_path_complete
     = Inr doc_fs_sync"
  using doc_fs_sync_examples(4) by (rule read_text_latin1)

lemma doc_fs_sync_patch: "patch example_keys doc_fs_sync \<noteq> doc_fs_sync"
proof -
  have "contains doc_fs_sync ''/* End PBXFileSystemSynchronizedRootGroup section */''"
    by (rule doc_fs_sync_examples)
  moreover have "new_group example_keys \<noteq> []" by (simp add: new_group_def)
  ultimately have "step2 example_keys doc_fs_sync \<noteq> doc_fs_sync"
    unfolding step2_def by (rule insert_before_changes)
  moreover have "step2 example_keys \<in> set (steps example_keys)" by (simp add: steps_def)
  ultimately have "\<not> (\<forall>f \<in> set (steps example_keys). f doc_fs_sync = doc_fs_sync)"
    by (rule_tac notI) (drule bspec, assumption, simp)
  then show ?thesis by (simp only: patch_unchanged_iff not_False_eq_True)
qed

theorem absent_anchor_is_skipped_witness:
  "read_text posix_latin1 [project_path_complete \<mapsto> doc_fs_sync] project_path_complete
     = Inr doc_fs_sync
   \<and> \<not> contains doc_fs_sync ''DevCamTests''
   \<and> write_error posix_latin1 project_path_complete = None
   \<and> re_search file_ref_re doc_fs_sync = None
   \<and> step1 example_keys doc_fs_sync = doc_fs_sync
   \<and> contains doc_fs_sync ''/* End PBXFileSystemSynchronizedRootGroup section */''
   \<and> step2 example_keys doc_fs_sync \<noteq> doc_fs_sync
   \<and> patch example_keys doc_fs_sync =
       step14 example_keys (step13 example_keys (step12 example_keys (step11 example_keys
         (step10 example_keys (step9 example_keys (step8 example_keys (step7 example_keys
           (step6 example_keys (step5 example_keys (step4 example_keys (step3 example_keys
             (step2 example_keys doc_fs_sync))))))))))))
   \<and> written (add_test_target_complete posix_latin1 uuid4_distinct
                [project_path_complete \<mapsto> doc_fs_sync])
       = [project_path_complete]
   \<and> files (add_test_target_complete posix_latin1 uuid4_distinct
              [project_path_complete \<mapsto> doc_fs_sync])
       = [project_path_complete \<mapsto> patch example_keys doc_fs_sync]"
  using absent_anchor_is_skipped [where env = posix_latin1
      and fs = "[project_path_complete \<mapsto> doc_fs_sync]"
      and content = doc_fs_sync and uuids = uuid4_distinct
      and k = example_keys and c = doc_fs_sync]
    doc_fs_sync_examples doc_fs_sync_read writable_latin1[of project_path_complete]
    encode_latin1[of "patch example_keys doc_fs_sync"]
  by (simp add: generate_keys_example)

theorem partial_patch_counterexample:
  "re_search file_ref_re doc_fs_sync = None
   \<and> read_text posix_latin1 [project_path_complete \<mapsto> doc_fs_sync] project_path_complete
       = Inr doc_fs_sync
   \<and> files (add_test_target_complete posix_latin1 uuid4_distinct
              [project_path_complete \<mapsto> doc_fs_sync])
         project_path_complete \<noteq> Some doc_fs_sync"
  using run_latin1 [OF doc_fs_sync_examples(4,1), of uuid4_distinct]
    doc_fs_sync_examples doc_fs_sync_read doc_fs_sync_patch
  by (simp add: generate_keys_example)

end
